theory Spec2Isabelle
  imports Complex_Main "HOL-Library.Word"
begin

unbundle bit_operations_syntax

section \<open>The IR the pass reads and builds\<close>

text \<open>
  The development embeds \<^verbatim>\<open>src/broadcom/compiler/v3d_nir_lower_io.c\<close>.
  The pass is a compiler pass: it reads NIR instructions and builds new ones with the
  NIR builder. The headers \<^verbatim>\<open>v3d_compiler.h\<close>, \<^verbatim>\<open>nir_builder.h\<close>
  and \<^verbatim>\<open>u_helpers.h\<close> are not among the sources, so the IR is a datatype here:
  an SSA value is the expression the builder was asked for, and every builder call of the
  source (\<^verbatim>\<open>nir_iand_imm(b, x, y)\<close>) is the node of the same name, without the
  builder argument.
\<close>

datatype gl_shader_stage =
    MESA_SHADER_VERTEX
  | MESA_SHADER_TESS_CTRL
  | MESA_SHADER_TESS_EVAL
  | MESA_SHADER_GEOMETRY
  | MESA_SHADER_FRAGMENT
  | MESA_SHADER_COMPUTE

datatype v3d_environment = V3D_ENVIRONMENT_OPENGL | V3D_ENVIRONMENT_VULKAN

text \<open>
  Values of the \<^verbatim>\<open>gl_varying_slot\<close> enum (Mesa's \<^verbatim>\<open>shader_enums.h\<close>, not
  among the sources). The pass only compares locations with them.
\<close>

definition VARYING_SLOT_POS :: nat where "VARYING_SLOT_POS = 0"
definition VARYING_SLOT_PSIZ :: nat where "VARYING_SLOT_PSIZ = 12"
definition VARYING_SLOT_LAYER :: nat where "VARYING_SLOT_LAYER = 22"

text \<open>
  The three function-local variables that \<^verbatim>\<open>emit_gs_prolog\<close> creates with
  \<^verbatim>\<open>nir_local_variable_create\<close>, named "output_offset", "header_offset" and "header".
\<close>

datatype nir_variable = Var_output_offset | Var_header_offset | Var_header

text \<open>
  \<open>Ssa n\<close> is the value defined by instruction \<open>n\<close> of the incoming shader.
  \<open>nir_imm_int\<close> is a 32-bit constant (an incoming \<^verbatim>\<open>load_const\<close> is the same node).
  \<open>nir_load_var\<close> reads a local variable; it is read when the instruction that uses the
  node runs. In every function of the pass all loads of a variable are built before the
  first \<^verbatim>\<open>nir_store_var\<close> to it and are used no later than that store, so this is the
  value the loaded SSA value has.
  \<open>nir_mov_channel x i\<close> is the move that reads component \<open>i\<close> of \<open>x\<close>.
\<close>

datatype nir_ssa_def =
    Ssa nat
  | nir_ssa_undef
  | nir_imm_int "32 word"
  | nir_imm_float real
  | nir_load_var nir_variable
  | nir_load_viewport_x_scale
  | nir_load_viewport_y_scale
  | nir_load_viewport_z_scale
  | nir_load_viewport_z_offset
  | nir_load_fb_layers_v3d
  | nir_mov_channel nir_ssa_def nat
  | nir_frcp nir_ssa_def
  | nir_ffloor nir_ssa_def
  | nir_f2i32 nir_ssa_def
  | nir_fmul nir_ssa_def nir_ssa_def
  | nir_fadd nir_ssa_def nir_ssa_def
  | nir_fsub nir_ssa_def nir_ssa_def
  | nir_ior nir_ssa_def nir_ssa_def
  | nir_ige nir_ssa_def nir_ssa_def
  | nir_bcsel nir_ssa_def nir_ssa_def nir_ssa_def
  | nir_iadd_imm nir_ssa_def int
  | nir_ishl_imm nir_ssa_def nat
  | nir_iand_imm nir_ssa_def "32 word"
  | nir_ior_imm nir_ssa_def "32 word"

text \<open>
  \<^verbatim>\<open>nir_channel(b, x, i)\<close> for a value \<open>x\<close> of \<open>n\<close> components: the builder
  hands back \<open>x\<close> itself when \<open>x\<close> has one component (and \<open>i\<close> is 0), and
  builds the move otherwise.
\<close>

definition nir_channel :: "nir_ssa_def \<Rightarrow> nat \<Rightarrow> nat \<Rightarrow> nir_ssa_def" where
  "nir_channel x n i = (if n = 1 \<and> i = 0 then x else nir_mov_channel x i)"

text \<open>\<^verbatim>\<open>nir_fsub_imm(b, x, y)\<close> builds \<open>x - y\<close> with the constant on the left.\<close>

definition nir_fsub_imm :: "real \<Rightarrow> nir_ssa_def \<Rightarrow> nir_ssa_def" where
  "nir_fsub_imm x y = nir_fsub (nir_imm_float x) y"

datatype nir_intrinsic_op =
    nir_intrinsic_load_input
  | nir_intrinsic_load_uniform
  | nir_intrinsic_store_output
  | nir_intrinsic_emit_vertex
  | nir_intrinsic_end_primitive
  | nir_intrinsic_other

text \<open>
  An intrinsic of the incoming shader. The fields carry the names of the accessors the
  source reads them with. \<open>dest_ssa\<close> is the index of the value a load defines;
  \<open>src0\<close> and \<open>src1\<close> are \<^verbatim>\<open>src[0]\<close> and \<^verbatim>\<open>src[1]\<close>;
  \<open>io_location\<close> is \<^verbatim>\<open>nir_intrinsic_io_semantics(intr).location\<close>.
  The base is a C \<^verbatim>\<open>int\<close>; uniform bases are small, and signed overflow is
  undefined in C, so it is an unbounded integer here.
\<close>

record nir_intrinsic_instr =
  intrinsic :: nir_intrinsic_op
  dest_ssa :: nat
  num_components :: nat
  src0 :: nir_ssa_def
  src1 :: nir_ssa_def
  nir_intrinsic_base :: int
  nir_intrinsic_component :: nat
  nir_intrinsic_write_mask :: "32 word"
  io_location :: nat

text \<open>
  An instruction of the incoming shader: an intrinsic, or an instruction of any other
  type (\<open>Other_instr d srcs\<close>, defining value \<open>d\<close> from \<open>srcs\<close>).
\<close>

datatype nir_instr =
    Intrinsic nir_intrinsic_instr
  | Other_instr nat "nir_ssa_def list"

text \<open>
  An instruction of the lowered shader: an instruction the pass kept (possibly with a
  field rewritten), or one the pass built. \<open>nir_store_output chan offset base\<close> is the
  call \<^verbatim>\<open>nir_store_output(b, chan, offset, .base = base, .write_mask = 0x1, .component = 0)\<close>,
  the physical write of one scalar to the VPM; \<open>nir_store_var var v\<close> is
  \<^verbatim>\<open>nir_store_var(b, var, v, 0x1)\<close>.
\<close>

datatype lowered_instr =
    Kept nir_instr
  | nir_store_output nir_ssa_def nir_ssa_def int
  | nir_store_var nir_variable nir_ssa_def

text \<open>
  The ways the pass can abort: a failed \<^verbatim>\<open>assert\<close> (assertions are taken to be
  compiled in), an \<^verbatim>\<open>unreachable\<close>, and the use of a variable pointer that is
  \<^verbatim>\<open>NULL\<close>. None of them is caught anywhere in the pass.
\<close>

datatype error = Assertion_failed | Unreachable | Null_pointer

section \<open>The compile context and the pass state\<close>

text \<open>
  \<^verbatim>\<open>struct v3d_varying_slot\<close> packs a location and a component; the table
  \<^verbatim>\<open>used_outputs[0 .. num_used_outputs)\<close> is the list of these pairs in the caller's order.
\<close>

type_synonym v3d_varying_slot = "nat \<times> nat"

definition v3d_slot_get_slot :: "v3d_varying_slot \<Rightarrow> nat" where
  "v3d_slot_get_slot slot = fst slot"

definition v3d_slot_get_component :: "v3d_varying_slot \<Rightarrow> nat" where
  "v3d_slot_get_component slot = snd slot"

text \<open>The fields of the vertex and geometry keys that the pass reads.\<close>

record v3d_vs_key =
  is_last_geometry_stage :: bool
  is_coord :: bool
  per_vertex_point_size :: bool
  used_outputs :: "v3d_varying_slot list"
  va_swap_rb_mask :: "32 word"

definition num_used_outputs :: "v3d_vs_key \<Rightarrow> nat" where
  "num_used_outputs k = length (used_outputs k)"

record v3d_fs_key =
  point_sprite_mask :: "32 word"
  is_points :: bool
  point_coord_upper_left :: bool

text \<open>A shader variable: its \<^verbatim>\<open>data.location\<close>, \<^verbatim>\<open>data.location_frac\<close> and
  \<^verbatim>\<open>data.driver_location\<close>.\<close>

record nir_variable_data =
  data_location :: nat
  data_location_frac :: nat
  data_driver_location :: int

record nir_shader =
  info_stage :: gl_shader_stage
  info_gs_vertices_out :: "32 word"
  impls :: "nir_instr list list"
  shader_in_variables :: "nir_variable_data list"
  shader_out_variables :: "nir_variable_data list"

text \<open>
  \<^verbatim>\<open>struct v3d_compile\<close>, the fields the pass uses. \<open>vs_key\<close>, \<open>gs_key\<close> and
  \<open>fs_key\<close> are the views of \<^verbatim>\<open>c->key\<close> for the three stages.
  \<open>util_varying_is_point_coord\<close> stands for the helper of that name in
  \<^verbatim>\<open>util/u_helpers.h\<close>, which is not among the sources: it is a parameter.
\<close>

record v3d_compile =
  s :: nir_shader
  environment :: v3d_environment
  vs_key :: v3d_vs_key
  gs_key :: v3d_vs_key
  fs_key :: v3d_fs_key
  vpm_output_size :: int
  util_varying_is_point_coord :: "nat \<Rightarrow> 32 word \<Rightarrow> bool"

text \<open>
  \<^verbatim>\<open>struct v3d_nir_lower_io_state\<close>. The six offsets are C \<^verbatim>\<open>int\<close>s with \<open>-1\<close>
  for "absent"; they are bounded by the table's capacity plus seven, so they are integers
  here. The variable pointers are \<open>None\<close> for \<^verbatim>\<open>NULL\<close>. \<open>varyings_stored\<close> is the
  bit set, as the set of indices whose bit is set. \<open>pos\<close> is the array of four SSA pointers.
\<close>

record v3d_nir_lower_io_state =
  pos_vpm_offset :: int
  vp_vpm_offset :: int
  zs_vpm_offset :: int
  rcp_wc_vpm_offset :: int
  psiz_vpm_offset :: int
  varyings_vpm_offset :: int
  gs_output_offset_var :: "nir_variable option"
  gs_header_offset_var :: "nir_variable option"
  gs_header_var :: "nir_variable option"
  gs_output_header_size :: "32 word"
  gs_output_vertex_data_size :: "32 word"
  varyings_stored :: "int set"
  pos :: "nat \<Rightarrow> nir_ssa_def option"

text \<open>The zero-initialised state, \<^verbatim>\<open>struct v3d_nir_lower_io_state state = { 0 }\<close>.\<close>

definition zero_state :: v3d_nir_lower_io_state where
  "zero_state =
     \<lparr>pos_vpm_offset = 0, vp_vpm_offset = 0, zs_vpm_offset = 0, rcp_wc_vpm_offset = 0,
      psiz_vpm_offset = 0, varyings_vpm_offset = 0,
      gs_output_offset_var = None, gs_header_offset_var = None, gs_header_var = None,
      gs_output_header_size = 0, gs_output_vertex_data_size = 0,
      varyings_stored = {}, pos = (\<lambda>i. None)\<rparr>"

section \<open>The pass\<close>

subsection \<open>Physical writes and uniform loads\<close>

definition v3d_nir_store_output ::
  "int \<Rightarrow> nir_ssa_def option \<Rightarrow> nir_ssa_def \<Rightarrow> lowered_instr" where
  "v3d_nir_store_output base offset chan =
     (case offset of
        Some off \<Rightarrow> nir_store_output chan (nir_iadd_imm off base) 0
      | None \<Rightarrow> nir_store_output chan (nir_imm_int 0) base)"

definition v3d_nir_lower_uniform ::
  "v3d_compile \<Rightarrow> nir_intrinsic_instr \<Rightarrow> nir_intrinsic_instr" where
  "v3d_nir_lower_uniform c intr =
     (if environment c = V3D_ENVIRONMENT_VULKAN then intr
      else intr\<lparr>nir_intrinsic_base := nir_intrinsic_base intr * 16,
                src0 := nir_ishl_imm (src0 intr) 4\<rparr>)"

text \<open>Errors are values; \<open>bind_err\<close> passes the first one on.\<close>

definition bind_err :: "error + 'a \<Rightarrow> ('a \<Rightarrow> error + 'b) \<Rightarrow> error + 'b" where
  "bind_err m f = (case m of Inl e \<Rightarrow> Inl e | Inr x \<Rightarrow> f x)"

text \<open>
  \<^verbatim>\<open>for (int i = ...) body\<close> over the given indices, for a body that updates the state and
  builds instructions.
\<close>

fun for_loop ::
  "nat list \<Rightarrow> (nat \<Rightarrow> 'st \<Rightarrow> error + ('st \<times> 'o list)) \<Rightarrow> 'st \<Rightarrow> error + ('st \<times> 'o list)" where
  "for_loop [] body state = Inr (state, [])"
| "for_loop (i # rest) body state =
     (case body i state of
        Inl e \<Rightarrow> Inl e
      | Inr (state1, out1) \<Rightarrow>
          (case for_loop rest body state1 of
             Inl e \<Rightarrow> Inl e
           | Inr (state2, out2) \<Rightarrow> Inr (state2, out1 @ out2)))"

subsection \<open>The used-outputs table\<close>

text \<open>The scan of \<^verbatim>\<open>v3d_varying_slot_vpm_offset\<close>, from index \<open>i\<close> on.\<close>

fun used_outputs_scan :: "v3d_varying_slot list \<Rightarrow> nat \<Rightarrow> nat \<Rightarrow> int \<Rightarrow> int" where
  "used_outputs_scan [] location component i = -1"
| "used_outputs_scan (slot # rest) location component i =
     (if v3d_slot_get_slot slot = location \<and> v3d_slot_get_component slot = component then i
      else used_outputs_scan rest location component (i + 1))"

definition v3d_varying_slot_vpm_offset :: "v3d_compile \<Rightarrow> nat \<Rightarrow> nat \<Rightarrow> error + int" where
  "v3d_varying_slot_vpm_offset c location component =
     (case info_stage (s c) of
        MESA_SHADER_VERTEX \<Rightarrow>
          Inr (used_outputs_scan (used_outputs (vs_key c)) location component 0)
      | MESA_SHADER_GEOMETRY \<Rightarrow>
          Inr (used_outputs_scan (used_outputs (gs_key c)) location component 0)
      | _ \<Rightarrow> Inl Unreachable)"

subsection \<open>Lowering a store to an output\<close>

text \<open>
  \<^verbatim>\<open>offset_reg\<close>: in a geometry shader the current vertex offset, otherwise \<^verbatim>\<open>NULL\<close>.
\<close>

definition load_offset_reg ::
  "v3d_compile \<Rightarrow> v3d_nir_lower_io_state \<Rightarrow> error + nir_ssa_def option" where
  "load_offset_reg c state =
     (if info_stage (s c) = MESA_SHADER_GEOMETRY then
        (case gs_output_offset_var state of
           None \<Rightarrow> Inl Null_pointer
         | Some var \<Rightarrow> Inr (Some (nir_load_var var)))
      else Inr None)"

text \<open>An SSA source is constant when a \<^verbatim>\<open>load_const\<close> defines it.\<close>

fun nir_src_is_const :: "nir_ssa_def \<Rightarrow> bool" where
  "nir_src_is_const (nir_imm_int k) = True"
| "nir_src_is_const x = False"

fun nir_src_as_uint :: "nir_ssa_def \<Rightarrow> nat" where
  "nir_src_as_uint (nir_imm_int k) = unat k"
| "nir_src_as_uint x = 0"

text \<open>The block for \<^verbatim>\<open>VARYING_SLOT_LAYER\<close> (lines 185 to 216).\<close>

definition lower_layer ::
  "v3d_compile \<Rightarrow> v3d_nir_lower_io_state \<Rightarrow> nir_ssa_def \<Rightarrow> error + lowered_instr list" where
  "lower_layer c state src =
     (if info_stage (s c) \<noteq> MESA_SHADER_GEOMETRY then Inl Assertion_failed
      else case gs_header_var state of
        None \<Rightarrow> Inl Null_pointer
      | Some header_var \<Rightarrow>
          (let header = nir_load_var header_var;
               header = nir_iand_imm header 0xff00ffff;
               fb_layers = nir_load_fb_layers_v3d;
               cond = nir_ige src fb_layers;
               layer_id = nir_bcsel cond (nir_imm_int 0) (nir_ishl_imm src 16);
               header = nir_ior header layer_id
           in Inr [nir_store_var header_var header]))"

text \<open>
  One turn of the loop over the components (lines 222 to 239). The table is looked up
  before the write mask is tested, as in the source. An offset that is a constant \<open>k\<close>
  adds \<open>4 * k\<close> to the table index, before the index is marked as stored: the sum is
  formed in \<^verbatim>\<open>uint64_t\<close> and stored back into the \<^verbatim>\<open>int\<close>, which keeps its low 32
  bits as a signed value. The slot of the write is the sum of the base of the varyings and
  this index, an addition of two \<^verbatim>\<open>int\<close>s (its overflow is undefined in C; the base is
  at most 7). The source value \<^verbatim>\<open>src\<close> has \<open>num_components intr\<close> components.
\<close>

definition lower_vpm_output_component ::
  "v3d_compile \<Rightarrow> nir_intrinsic_instr \<Rightarrow> nir_ssa_def option \<Rightarrow> nat \<Rightarrow> v3d_nir_lower_io_state
   \<Rightarrow> error + (v3d_nir_lower_io_state \<times> lowered_instr list)" where
  "lower_vpm_output_component c intr offset_reg i state =
     bind_err
       (v3d_varying_slot_vpm_offset c (io_location intr) (nir_intrinsic_component intr + i))
       (\<lambda>vpm_offset.
          if \<not> bit (nir_intrinsic_write_mask intr) i then Inr (state, [])
          else if vpm_offset = -1 then Inr (state, [])
          else
            (let vpm_offset =
                   (if nir_src_is_const (src1 intr)
                    then sint (word_of_int (vpm_offset + int (nir_src_as_uint (src1 intr)) * 4)
                                :: 32 word)
                    else vpm_offset);
                 state = state\<lparr>varyings_stored := insert vpm_offset (varyings_stored state)\<rparr>
             in Inr (state,
                  [v3d_nir_store_output (varyings_vpm_offset state + vpm_offset)
                     offset_reg (nir_channel (src0 intr) (num_components intr) i)])))"

definition v3d_nir_lower_vpm_output ::
  "v3d_compile \<Rightarrow> nir_intrinsic_instr \<Rightarrow> v3d_nir_lower_io_state
   \<Rightarrow> error + (v3d_nir_lower_io_state \<times> lowered_instr list)" where
  "v3d_nir_lower_vpm_output c intr state =
     bind_err (load_offset_reg c state) (\<lambda>offset_reg.
       let start_comp = nir_intrinsic_component intr;
           location = io_location intr;
           src = src0 intr;
           state =
             (if location = VARYING_SLOT_POS
              then state\<lparr>pos :=
                     fold (\<lambda>i p. p(start_comp + i
                                        \<mapsto> nir_channel src (num_components intr) i))
                       [0..<num_components intr] (pos state)\<rparr>
              else state);
           psiz_out =
             (if location = VARYING_SLOT_PSIZ \<and> psiz_vpm_offset state \<noteq> -1
              then [v3d_nir_store_output (psiz_vpm_offset state) offset_reg src]
              else [])
       in bind_err
            (if location = VARYING_SLOT_LAYER then lower_layer c state src else Inr [])
            (\<lambda>layer_out.
               bind_err
                 (for_loop [0..<num_components intr]
                    (lower_vpm_output_component c intr offset_reg) state)
                 (\<lambda>(state, out). Inr (state, psiz_out @ layer_out @ out))))"

subsection \<open>The geometry header\<close>

definition reset_gs_header :: "v3d_nir_lower_io_state \<Rightarrow> error + lowered_instr list" where
  "reset_gs_header state =
     (let vertex_data_size = gs_output_vertex_data_size state
      in if vertex_data_size AND 0xffffff00 \<noteq> 0 then Inl Assertion_failed
         else case gs_header_var state of
           None \<Rightarrow> Inl Null_pointer
         | Some header_var \<Rightarrow>
             (let header = push_bit 0 (1 :: 32 word);
                  header = header OR push_bit 8 vertex_data_size
              in Inr [nir_store_var header_var (nir_imm_int header)]))"

subsection \<open>Fixed-function outputs\<close>

text \<open>
  \<^verbatim>\<open>v3d_nir_emit_ff_vpm_outputs\<close>. A position component never written becomes an
  undefined value, and stays so in the state. \<open>p i\<close> is \<^verbatim>\<open>state->pos[i]\<close> after that.
\<close>

definition v3d_nir_emit_ff_vpm_outputs ::
  "v3d_compile \<Rightarrow> v3d_nir_lower_io_state
   \<Rightarrow> error + (v3d_nir_lower_io_state \<times> lowered_instr list)" where
  "v3d_nir_emit_ff_vpm_outputs c state =
     bind_err (load_offset_reg c state) (\<lambda>offset_reg.
       let state = state\<lparr>pos := (\<lambda>i. if i < 4 \<and> pos state i = None
                                       then Some nir_ssa_undef else pos state i)\<rparr>;
           p = (\<lambda>i. case pos state i of Some d \<Rightarrow> d | None \<Rightarrow> nir_ssa_undef);
           rcp_wc = nir_frcp (p 3);
           pos_out =
             (if pos_vpm_offset state \<noteq> -1
              then map (\<lambda>i. v3d_nir_store_output (pos_vpm_offset state + int i)
                               offset_reg (p i)) [0..<4]
              else []);
           vp_out =
             (if vp_vpm_offset state \<noteq> -1
              then map (\<lambda>i.
                     let scale = (if i = 0 then nir_load_viewport_x_scale
                                  else nir_load_viewport_y_scale);
                         v = nir_fmul (p i) scale;
                         v = nir_fmul v rcp_wc;
                         v = nir_f2i32 (nir_ffloor v)
                     in v3d_nir_store_output (vp_vpm_offset state + int i) offset_reg v)
                     [0..<2]
              else []);
           zs_out =
             (if zs_vpm_offset state \<noteq> -1
              then (let z = p 2;
                        z = nir_fmul z nir_load_viewport_z_scale;
                        z = nir_fmul z rcp_wc;
                        z = nir_fadd z nir_load_viewport_z_offset
                    in [v3d_nir_store_output (zs_vpm_offset state) offset_reg z])
              else []);
           rcp_wc_out =
             (if rcp_wc_vpm_offset state \<noteq> -1
              then [v3d_nir_store_output (rcp_wc_vpm_offset state) offset_reg rcp_wc]
              else []);
           zero_fill = (\<lambda>n. concat (map (\<lambda>i.
                     if int i \<notin> varyings_stored state
                     then [v3d_nir_store_output (varyings_vpm_offset state + int i)
                             offset_reg (nir_imm_int 0)]
                     else []) [0..<n]))
       in case info_stage (s c) of
            MESA_SHADER_VERTEX \<Rightarrow>
              Inr (state, pos_out @ vp_out @ zs_out @ rcp_wc_out
                          @ zero_fill (num_used_outputs (vs_key c)))
          | MESA_SHADER_GEOMETRY \<Rightarrow>
              Inr (state, pos_out @ vp_out @ zs_out @ rcp_wc_out
                          @ zero_fill (num_used_outputs (gs_key c)))
          | _ \<Rightarrow> Inl Unreachable)"

subsection \<open>Emitting vertices\<close>

definition v3d_nir_lower_emit_vertex ::
  "v3d_compile \<Rightarrow> v3d_nir_lower_io_state
   \<Rightarrow> error + (v3d_nir_lower_io_state \<times> lowered_instr list)" where
  "v3d_nir_lower_emit_vertex c state =
     (case (gs_header_var state, gs_header_offset_var state, gs_output_offset_var state) of
        (Some header_var, Some header_offset_var, Some output_offset_var) \<Rightarrow>
          (let header = nir_load_var header_var;
               header_offset = nir_load_var header_offset_var;
               output_offset = nir_load_var output_offset_var
           in bind_err (v3d_nir_emit_ff_vpm_outputs c state) (\<lambda>(state, ff_out).
                let header_out = v3d_nir_store_output 0 (Some header_offset) header;
                    output_offset =
                      nir_iadd_imm output_offset (uint (gs_output_vertex_data_size state));
                    header_offset = nir_iadd_imm header_offset 1;
                    header = nir_iand_imm header 0xfffffffe
                in Inr (state,
                     ff_out @
                     [header_out,
                      nir_store_var output_offset_var output_offset,
                      nir_store_var header_offset_var header_offset,
                      nir_store_var header_var header])))
      | _ \<Rightarrow> Inl Null_pointer)"

definition v3d_nir_lower_end_primitive ::
  "v3d_nir_lower_io_state \<Rightarrow> error + lowered_instr list" where
  "v3d_nir_lower_end_primitive state =
     (if gs_header_var state = None then Inl Assertion_failed
      else reset_gs_header state)"

subsection \<open>Inputs\<close>

definition v3d_nir_lower_vertex_input ::
  "v3d_compile \<Rightarrow> nir_intrinsic_instr \<Rightarrow> error + nir_intrinsic_instr" where
  "v3d_nir_lower_vertex_input c instr =
     (if info_stage (s c) \<noteq> MESA_SHADER_VERTEX then Inl Assertion_failed
      else if va_swap_rb_mask (vs_key c) = 0 then Inr instr
      else if \<not> bit (va_swap_rb_mask (vs_key c)) (io_location instr) then Inr instr
      else if num_components instr \<noteq> 1 then Inl Assertion_failed
      else (let comp = nir_intrinsic_component instr
            in if comp = 0 \<or> comp = 2
               then Inr (instr\<lparr>nir_intrinsic_component := (comp + 2) mod 4\<rparr>)
               else Inr instr))"

text \<open>
  \<^verbatim>\<open>nir_find_variable_with_driver_location(c->s, nir_var_shader_in, base)\<close>: the first
  input variable with that driver location, or \<^verbatim>\<open>NULL\<close>.
\<close>

definition nir_find_variable_with_driver_location ::
  "nir_shader \<Rightarrow> int \<Rightarrow> nir_variable_data option" where
  "nir_find_variable_with_driver_location shader loc =
     find (\<lambda>var. data_driver_location var = loc) (shader_in_variables shader)"

text \<open>
  \<^verbatim>\<open>v3d_nir_lower_fragment_input\<close> returns \<open>Some result\<close> when the uses of the load's
  value are to be rewritten to \<open>result\<close>, and \<open>None\<close> when \<^verbatim>\<open>result\<close> is still the
  load's own value.
\<close>

definition v3d_nir_lower_fragment_input ::
  "v3d_compile \<Rightarrow> nir_intrinsic_instr \<Rightarrow> error + nir_ssa_def option" where
  "v3d_nir_lower_fragment_input c intr =
     (if info_stage (s c) \<noteq> MESA_SHADER_FRAGMENT then Inl Assertion_failed
      else if environment c = V3D_ENVIRONMENT_OPENGL then Inr None
      else
        (let comp = nir_intrinsic_component intr;
             input_var = nir_find_variable_with_driver_location (s c) (nir_intrinsic_base intr)
         in case input_var of
              None \<Rightarrow> Inr None
            | Some var \<Rightarrow>
                if \<not> util_varying_is_point_coord c (data_location var)
                       (point_sprite_mask (fs_key c))
                then Inr None
                else if num_components intr \<noteq> 1 then Inl Assertion_failed
                else
                  (let result = Ssa (dest_ssa intr);
                       result =
                         (if comp = 0 \<or> comp = 1
                          then (if \<not> is_points (fs_key c) then nir_imm_float 0.0 else result)
                          else if comp = 2 then nir_imm_float 0.0
                          else if comp = 3 then nir_imm_float 1.0
                          else result);
                       result =
                         (if point_coord_upper_left (fs_key c) \<and> comp = 1
                          then nir_fsub_imm 1.0 result else result)
                   in if result \<noteq> Ssa (dest_ssa intr) then Inr (Some result)
                      else Inr None)))"

text \<open>
  \<^verbatim>\<open>nir_ssa_def_rewrite_uses_after\<close> on the instructions after the load: every source
  that is the load's value becomes \<open>result\<close>.
\<close>

definition rewrite_src :: "nat \<Rightarrow> nir_ssa_def \<Rightarrow> nir_ssa_def \<Rightarrow> nir_ssa_def" where
  "rewrite_src d result x = (if x = Ssa d then result else x)"

fun rewrite_instr :: "nat \<Rightarrow> nir_ssa_def \<Rightarrow> nir_instr \<Rightarrow> nir_instr" where
  "rewrite_instr d result (Intrinsic intr) =
     Intrinsic (intr\<lparr>src0 := rewrite_src d result (src0 intr),
                     src1 := rewrite_src d result (src1 intr)\<rparr>)"
| "rewrite_instr d result (Other_instr dst srcs) =
     Other_instr dst (map (rewrite_src d result) srcs)"

definition nir_ssa_def_rewrite_uses_after ::
  "(nat \<times> nir_ssa_def) option \<Rightarrow> nir_instr list \<Rightarrow> nir_instr list" where
  "nir_ssa_def_rewrite_uses_after rw rest =
     (case rw of None \<Rightarrow> rest | Some (d, result) \<Rightarrow> map (rewrite_instr d result) rest)"

subsection \<open>The walk over the instructions\<close>

text \<open>
  \<^verbatim>\<open>v3d_nir_lower_io_instr\<close> returns the new state, the instructions that stand in the
  place of the instruction, and the rewrite of later uses, if any.
\<close>

definition v3d_nir_lower_io_instr ::
  "v3d_compile \<Rightarrow> nir_instr \<Rightarrow> v3d_nir_lower_io_state
   \<Rightarrow> error + (v3d_nir_lower_io_state \<times> lowered_instr list \<times> (nat \<times> nir_ssa_def) option)" where
  "v3d_nir_lower_io_instr c instr state =
     (case instr of
        Other_instr d srcs \<Rightarrow> Inr (state, [Kept instr], None)
      | Intrinsic intr \<Rightarrow>
          (case intrinsic intr of
             nir_intrinsic_load_input \<Rightarrow>
               if info_stage (s c) = MESA_SHADER_VERTEX then
                 bind_err (v3d_nir_lower_vertex_input c intr) (\<lambda>intr'.
                   Inr (state, [Kept (Intrinsic intr')], None))
               else if info_stage (s c) = MESA_SHADER_FRAGMENT then
                 bind_err (v3d_nir_lower_fragment_input c intr) (\<lambda>result.
                   Inr (state, [Kept instr],
                        map_option (\<lambda>r. (dest_ssa intr, r)) result))
               else Inr (state, [Kept instr], None)
           | nir_intrinsic_load_uniform \<Rightarrow>
               Inr (state, [Kept (Intrinsic (v3d_nir_lower_uniform c intr))], None)
           | nir_intrinsic_store_output \<Rightarrow>
               if info_stage (s c) = MESA_SHADER_VERTEX
                  \<or> info_stage (s c) = MESA_SHADER_GEOMETRY then
                 bind_err (v3d_nir_lower_vpm_output c intr state) (\<lambda>(state, out).
                   Inr (state, out, None))
               else Inr (state, [Kept instr], None)
           | nir_intrinsic_emit_vertex \<Rightarrow>
               bind_err (v3d_nir_lower_emit_vertex c state) (\<lambda>(state, out).
                 Inr (state, out, None))
           | nir_intrinsic_end_primitive \<Rightarrow>
               bind_err (v3d_nir_lower_end_primitive state) (\<lambda>out.
                 Inr (state, out, None))
           | nir_intrinsic_other \<Rightarrow> Inr (state, [Kept instr], None)))"

text \<open>
  The loops \<^verbatim>\<open>nir_foreach_block\<close> and \<^verbatim>\<open>nir_foreach_instr_safe\<close>: the instructions of the
  function body in order. Instructions the pass builds are not visited.
\<close>

function lower_instrs ::
  "v3d_compile \<Rightarrow> nir_instr list \<Rightarrow> v3d_nir_lower_io_state
   \<Rightarrow> error + (v3d_nir_lower_io_state \<times> lowered_instr list)" where
  "lower_instrs c [] state = Inr (state, [])"
| "lower_instrs c (instr # rest) state =
     (case v3d_nir_lower_io_instr c instr state of
        Inl e \<Rightarrow> Inl e
      | Inr (state1, out1, rw) \<Rightarrow>
          (case lower_instrs c (nir_ssa_def_rewrite_uses_after rw rest) state1 of
             Inl e \<Rightarrow> Inl e
           | Inr (state2, out2) \<Rightarrow> Inr (state2, out1 @ out2)))"
  by pat_completeness auto
termination
  by (relation "measure (\<lambda>(c, instrs, state). length instrs)")
     (auto simp: nir_ssa_def_rewrite_uses_after_def split: option.splits)

subsection \<open>Geometry prologue and final header\<close>

definition emit_gs_prolog ::
  "v3d_compile \<Rightarrow> v3d_nir_lower_io_state
   \<Rightarrow> error + (v3d_nir_lower_io_state \<times> lowered_instr list)" where
  "emit_gs_prolog c state =
     (if gs_output_offset_var state \<noteq> None then Inl Assertion_failed
      else
        (let state = state\<lparr>gs_output_offset_var := Some Var_output_offset\<rparr>;
             out1 = [nir_store_var Var_output_offset
                       (nir_imm_int (gs_output_header_size state))]
         in if gs_header_offset_var state \<noteq> None then Inl Assertion_failed
            else
              (let state = state\<lparr>gs_header_offset_var := Some Var_header_offset\<rparr>;
                   out2 = [nir_store_var Var_header_offset (nir_imm_int 1)]
               in if gs_header_var state \<noteq> None then Inl Assertion_failed
                  else
                    (let state = state\<lparr>gs_header_var := Some Var_header\<rparr>
                     in bind_err (reset_gs_header state) (\<lambda>out3.
                          Inr (state, out1 @ out2 @ out3))))))"

definition emit_gs_vpm_output_header_prolog ::
  "v3d_nir_lower_io_state \<Rightarrow> error + lowered_instr list" where
  "emit_gs_vpm_output_header_prolog state =
     (case gs_header_offset_var state of
        None \<Rightarrow> Inl Null_pointer
      | Some header_offset_var \<Rightarrow>
          (let header_offset = nir_load_var header_offset_var;
               vertex_count = nir_iadd_imm header_offset (-1);
               header = nir_ior_imm (nir_ishl_imm vertex_count 16)
                          (gs_output_header_size state)
           in Inr [v3d_nir_store_output 0 None header]))"

subsection \<open>The layout of the VPM\<close>

text \<open>
  The local \<^verbatim>\<open>vpm_offset\<close> is an integer here: it stays below the table's capacity plus
  seven.
\<close>

definition v3d_nir_setup_vpm_layout_vs ::
  "v3d_compile \<Rightarrow> v3d_nir_lower_io_state \<Rightarrow> v3d_compile \<times> v3d_nir_lower_io_state" where
  "v3d_nir_setup_vpm_layout_vs c state =
     (let vpm_offset = (0 :: int);
          state = state\<lparr>pos_vpm_offset := -1, vp_vpm_offset := -1, zs_vpm_offset := -1,
                        rcp_wc_vpm_offset := -1, psiz_vpm_offset := -1\<rparr>;
          needs_ff_outputs = is_last_geometry_stage (vs_key c);
          (state, vpm_offset) =
            (if needs_ff_outputs then
               (let (state, vpm_offset) =
                      (if is_coord (vs_key c)
                       then (state\<lparr>pos_vpm_offset := vpm_offset\<rparr>, vpm_offset + 4)
                       else (state, vpm_offset));
                    state = state\<lparr>vp_vpm_offset := vpm_offset\<rparr>;
                    vpm_offset = vpm_offset + 2;
                    (state, vpm_offset) =
                      (if \<not> is_coord (vs_key c)
                       then (state\<lparr>zs_vpm_offset := vpm_offset,
                                    rcp_wc_vpm_offset := vpm_offset + 1\<rparr>, vpm_offset + 2)
                       else (state, vpm_offset));
                    (state, vpm_offset) =
                      (if per_vertex_point_size (vs_key c)
                       then (state\<lparr>psiz_vpm_offset := vpm_offset\<rparr>, vpm_offset + 1)
                       else (state, vpm_offset))
                in (state, vpm_offset))
             else (state, vpm_offset));
          state = state\<lparr>varyings_vpm_offset := vpm_offset\<rparr>
      in (c\<lparr>vpm_output_size := max 1 (vpm_offset + int (num_used_outputs (vs_key c)))\<rparr>,
          state))"

text \<open>
  The geometry layout. The point-size offset is written only when the key asks for a
  per-vertex point size; otherwise it keeps the value the state had. The two sizes are
  \<^verbatim>\<open>uint32_t\<close>.
\<close>

definition v3d_nir_setup_vpm_layout_gs ::
  "v3d_compile \<Rightarrow> v3d_nir_lower_io_state \<Rightarrow> v3d_compile \<times> v3d_nir_lower_io_state" where
  "v3d_nir_setup_vpm_layout_gs c state =
     (let num_vertices = info_gs_vertices_out (s c);
          state = state\<lparr>gs_output_header_size := 1 + num_vertices\<rparr>;
          vpm_offset = (0 :: int);
          (state, vpm_offset) =
            (if is_coord (gs_key c)
             then (state\<lparr>pos_vpm_offset := vpm_offset\<rparr>, vpm_offset + 4)
             else (state\<lparr>pos_vpm_offset := -1\<rparr>, vpm_offset));
          state = state\<lparr>vp_vpm_offset := vpm_offset\<rparr>;
          vpm_offset = vpm_offset + 2;
          (state, vpm_offset) =
            (if \<not> is_coord (gs_key c)
             then (state\<lparr>zs_vpm_offset := vpm_offset,
                          rcp_wc_vpm_offset := vpm_offset + 1\<rparr>, vpm_offset + 2)
             else (state\<lparr>zs_vpm_offset := -1, rcp_wc_vpm_offset := -1\<rparr>, vpm_offset));
          (state, vpm_offset) =
            (if per_vertex_point_size (gs_key c)
             then (state\<lparr>psiz_vpm_offset := vpm_offset\<rparr>, vpm_offset + 1)
             else (state, vpm_offset));
          state = state\<lparr>varyings_vpm_offset := vpm_offset\<rparr>;
          state = state\<lparr>gs_output_vertex_data_size :=
                    word_of_int (varyings_vpm_offset state
                                 + int (num_used_outputs (gs_key c)))\<rparr>
      in (c\<lparr>vpm_output_size :=
              uint (gs_output_header_size state
                    + gs_output_vertex_data_size state * num_vertices)\<rparr>,
          state))"

subsection \<open>The pass\<close>

text \<open>
  \<^verbatim>\<open>v3d_nir_lower_io_update_output_var_base\<close>: the output variables with their new
  driver locations; a variable with no slot is removed.
\<close>

definition update_output_var ::
  "v3d_compile \<Rightarrow> v3d_nir_lower_io_state \<Rightarrow> nir_variable_data
   \<Rightarrow> error + nir_variable_data list" where
  "update_output_var c state var =
     (if data_location var = VARYING_SLOT_POS \<and> pos_vpm_offset state \<noteq> -1
      then Inr [var\<lparr>data_driver_location := pos_vpm_offset state\<rparr>]
      else if data_location var = VARYING_SLOT_PSIZ \<and> psiz_vpm_offset state \<noteq> -1
      then Inr [var\<lparr>data_driver_location := psiz_vpm_offset state\<rparr>]
      else
        bind_err (v3d_varying_slot_vpm_offset c (data_location var) (data_location_frac var))
          (\<lambda>vpm_offset.
             if vpm_offset \<noteq> -1
             then Inr [var\<lparr>data_driver_location := varyings_vpm_offset state + vpm_offset\<rparr>]
             else Inr []))"

fun update_output_vars ::
  "v3d_compile \<Rightarrow> v3d_nir_lower_io_state \<Rightarrow> nir_variable_data list
   \<Rightarrow> error + nir_variable_data list" where
  "update_output_vars c state [] = Inr []"
| "update_output_vars c state (var # rest) =
     bind_err (update_output_var c state var) (\<lambda>kept.
       bind_err (update_output_vars c state rest) (\<lambda>rest'. Inr (kept @ rest')))"

definition v3d_nir_lower_io_update_output_var_base ::
  "v3d_compile \<Rightarrow> v3d_nir_lower_io_state \<Rightarrow> error + v3d_compile" where
  "v3d_nir_lower_io_update_output_var_base c state =
     bind_err (update_output_vars c state (shader_out_variables (s c))) (\<lambda>vars.
       Inr (c\<lparr>s := (s c)\<lparr>shader_out_variables := vars\<rparr>\<rparr>))"

text \<open>The body of \<^verbatim>\<open>nir_foreach_function_impl\<close>, for one function.\<close>

definition lower_impl ::
  "v3d_compile \<Rightarrow> nir_instr list \<Rightarrow> v3d_nir_lower_io_state
   \<Rightarrow> error + (v3d_nir_lower_io_state \<times> lowered_instr list)" where
  "lower_impl c impl state =
     bind_err
       (if info_stage (s c) = MESA_SHADER_GEOMETRY then emit_gs_prolog c state
        else Inr (state, []))
       (\<lambda>(state, prolog).
          bind_err (lower_instrs c impl state) (\<lambda>(state, body).
            bind_err
              (if info_stage (s c) = MESA_SHADER_VERTEX
               then v3d_nir_emit_ff_vpm_outputs c state
               else if info_stage (s c) = MESA_SHADER_GEOMETRY
               then bind_err (emit_gs_vpm_output_header_prolog state) (\<lambda>out.
                      Inr (state, out))
               else Inr (state, []))
              (\<lambda>(state, epilog). Inr (state, prolog @ body @ epilog))))"

fun lower_impls ::
  "v3d_compile \<Rightarrow> nir_instr list list \<Rightarrow> v3d_nir_lower_io_state
   \<Rightarrow> error + (v3d_nir_lower_io_state \<times> lowered_instr list list)" where
  "lower_impls c [] state = Inr (state, [])"
| "lower_impls c (impl # rest) state =
     bind_err (lower_impl c impl state) (\<lambda>(state, out).
       bind_err (lower_impls c rest state) (\<lambda>(state, outs).
         Inr (state, out # outs)))"

text \<open>
  \<^verbatim>\<open>v3d_nir_lower_io\<close>: the compile context after the pass (with the VPM output size
  and the output variables) and the lowered body of every function. The body of a
  function is the list of the instructions of its blocks, in order. The C function
  always returns \<^verbatim>\<open>true\<close>; that result is left out.
\<close>

definition v3d_nir_lower_io ::
  "v3d_compile \<Rightarrow> error + (v3d_compile \<times> lowered_instr list list)" where
  "v3d_nir_lower_io c =
     bind_err
       (case info_stage (s c) of
          MESA_SHADER_VERTEX \<Rightarrow> Inr (v3d_nir_setup_vpm_layout_vs c zero_state)
        | MESA_SHADER_GEOMETRY \<Rightarrow> Inr (v3d_nir_setup_vpm_layout_gs c zero_state)
        | MESA_SHADER_FRAGMENT \<Rightarrow> Inr (c, zero_state)
        | MESA_SHADER_COMPUTE \<Rightarrow> Inr (c, zero_state)
        | _ \<Rightarrow> Inl Unreachable)
       (\<lambda>(c, state).
          bind_err (lower_impls c (impls (s c)) state) (\<lambda>(state, lowered).
            bind_err
              (if info_stage (s c) = MESA_SHADER_VERTEX
                  \<or> info_stage (s c) = MESA_SHADER_GEOMETRY
               then v3d_nir_lower_io_update_output_var_base c state
               else Inr c)
              (\<lambda>c. Inr (c, lowered))))"

section \<open>What the built instructions do\<close>

text \<open>
  The meaning of the nodes the pass builds, as NIR defines its opcodes on 32-bit values,
  component by component. The values the pass treats as opaque (the incoming shader's
  values, the hardware state, floating-point arithmetic) are fields of the environment,
  so every statement below holds for any choice of them.
\<close>

record nir_env =
  ssa_value :: "nat \<Rightarrow> nat \<Rightarrow> 32 word"
  undef_value :: "32 word"
  float_bits :: "real \<Rightarrow> 32 word"
  viewport_x_scale :: "32 word"
  viewport_y_scale :: "32 word"
  viewport_z_scale :: "32 word"
  viewport_z_offset :: "32 word"
  fb_layers :: "32 word"
  op_frcp :: "32 word \<Rightarrow> 32 word"
  op_ffloor :: "32 word \<Rightarrow> 32 word"
  op_f2i32 :: "32 word \<Rightarrow> 32 word"
  op_fmul :: "32 word \<Rightarrow> 32 word \<Rightarrow> 32 word"
  op_fadd :: "32 word \<Rightarrow> 32 word \<Rightarrow> 32 word"
  op_fsub :: "32 word \<Rightarrow> 32 word \<Rightarrow> 32 word"

text \<open>
  \<open>nir_eval env vars x i\<close> is component \<open>i\<close> of the value of \<open>x\<close>, with the local
  variables as in \<open>vars\<close>. \<^verbatim>\<open>ige\<close> compares signed integers; \<^verbatim>\<open>ishl\<close> shifts by the
  count modulo 32.
\<close>

fun nir_eval :: "nir_env \<Rightarrow> (nir_variable \<Rightarrow> 32 word) \<Rightarrow> nir_ssa_def \<Rightarrow> nat \<Rightarrow> 32 word" where
  "nir_eval env vars (Ssa n) i = ssa_value env n i"
| "nir_eval env vars nir_ssa_undef i = undef_value env"
| "nir_eval env vars (nir_imm_int k) i = k"
| "nir_eval env vars (nir_imm_float x) i = float_bits env x"
| "nir_eval env vars (nir_load_var var) i = vars var"
| "nir_eval env vars nir_load_viewport_x_scale i = viewport_x_scale env"
| "nir_eval env vars nir_load_viewport_y_scale i = viewport_y_scale env"
| "nir_eval env vars nir_load_viewport_z_scale i = viewport_z_scale env"
| "nir_eval env vars nir_load_viewport_z_offset i = viewport_z_offset env"
| "nir_eval env vars nir_load_fb_layers_v3d i = fb_layers env"
| "nir_eval env vars (nir_mov_channel x j) i = nir_eval env vars x j"
| "nir_eval env vars (nir_frcp x) i = op_frcp env (nir_eval env vars x i)"
| "nir_eval env vars (nir_ffloor x) i = op_ffloor env (nir_eval env vars x i)"
| "nir_eval env vars (nir_f2i32 x) i = op_f2i32 env (nir_eval env vars x i)"
| "nir_eval env vars (nir_fmul x y) i =
     op_fmul env (nir_eval env vars x i) (nir_eval env vars y i)"
| "nir_eval env vars (nir_fadd x y) i =
     op_fadd env (nir_eval env vars x i) (nir_eval env vars y i)"
| "nir_eval env vars (nir_fsub x y) i =
     op_fsub env (nir_eval env vars x i) (nir_eval env vars y i)"
| "nir_eval env vars (nir_ior x y) i = nir_eval env vars x i OR nir_eval env vars y i"
| "nir_eval env vars (nir_ige x y) i =
     (if nir_eval env vars y i \<le>s nir_eval env vars x i then 1 else 0)"
| "nir_eval env vars (nir_bcsel b x y) i =
     (if nir_eval env vars b i \<noteq> 0 then nir_eval env vars x i else nir_eval env vars y i)"
| "nir_eval env vars (nir_iadd_imm x k) i = nir_eval env vars x i + word_of_int k"
| "nir_eval env vars (nir_ishl_imm x k) i = push_bit (k mod 32) (nir_eval env vars x i)"
| "nir_eval env vars (nir_iand_imm x k) i = nir_eval env vars x i AND k"
| "nir_eval env vars (nir_ior_imm x k) i = nir_eval env vars x i OR k"

text \<open>
  The state the built instructions act on: the local variables, and the VPM writes made
  so far, each an address and a value. A write goes to the address \<open>base + offset\<close>.
  An instruction the pass kept touches neither.
\<close>

record vpm_state =
  var_value :: "nir_variable \<Rightarrow> 32 word"
  vpm_writes :: "(32 word \<times> 32 word) list"

fun exec_instr :: "nir_env \<Rightarrow> lowered_instr \<Rightarrow> vpm_state \<Rightarrow> vpm_state" where
  "exec_instr env (Kept instr) rt = rt"
| "exec_instr env (nir_store_output chan offset base) rt =
     rt\<lparr>vpm_writes := vpm_writes rt @
          [(word_of_int base + nir_eval env (var_value rt) offset 0,
            nir_eval env (var_value rt) chan 0)]\<rparr>"
| "exec_instr env (nir_store_var var x) rt =
     rt\<lparr>var_value := (var_value rt)(var := nir_eval env (var_value rt) x 0)\<rparr>"

fun exec_instrs :: "nir_env \<Rightarrow> lowered_instr list \<Rightarrow> vpm_state \<Rightarrow> vpm_state" where
  "exec_instrs env [] rt = rt"
| "exec_instrs env (instr # rest) rt = exec_instrs env rest (exec_instr env instr rt)"

section \<open>Specification-level notions and examples\<close>

text \<open>
  The allocation the specification describes, in its own words: the slots are taken in
  order, a present slot gets the next free offset and moves it on by its width, an absent
  one gets \<open>-1\<close>.
\<close>

fun spec_allocate :: "(int \<times> bool) list \<Rightarrow> int \<Rightarrow> int list \<times> int" where
  "spec_allocate [] next_free = ([], next_free)"
| "spec_allocate ((width, present) # rest) next_free =
     (if present
      then (let (offsets, n) = spec_allocate rest (next_free + width)
            in (next_free # offsets, n))
      else (let (offsets, n) = spec_allocate rest next_free in (-1 # offsets, n)))"

text \<open>
  The vertex-stage layout of the specification: position, viewport XY, depth,
  reciprocal W, point size, and the base of the varyings.
\<close>

definition spec_vs_layout :: "v3d_vs_key \<Rightarrow> int list \<times> int" where
  "spec_vs_layout k =
     (if \<not> is_last_geometry_stage k then ([-1, -1, -1, -1, -1], 0)
      else spec_allocate
             [(4, is_coord k), (2, True), (1, \<not> is_coord k), (1, \<not> is_coord k),
              (1, per_vertex_point_size k)] 0)"

text \<open>Concrete inputs for the examples.\<close>

definition example_key :: v3d_vs_key where
  "example_key =
     \<lparr>is_last_geometry_stage = True, is_coord = False, per_vertex_point_size = False,
      used_outputs = [(32, 0), (32, 1)], va_swap_rb_mask = 0\<rparr>"

definition example_fs_key :: v3d_fs_key where
  "example_fs_key =
     \<lparr>point_sprite_mask = 0, is_points = False, point_coord_upper_left = True\<rparr>"

definition example_shader :: "gl_shader_stage \<Rightarrow> nir_instr list \<Rightarrow> nir_shader" where
  "example_shader stage body =
     \<lparr>info_stage = stage, info_gs_vertices_out = 3, impls = [body],
      shader_in_variables =
        [\<lparr>data_location = 25, data_location_frac = 0, data_driver_location = 2\<rparr>],
      shader_out_variables = []\<rparr>"

definition example_compile ::
  "gl_shader_stage \<Rightarrow> v3d_environment \<Rightarrow> nir_instr list \<Rightarrow> v3d_compile" where
  "example_compile stage env body =
     \<lparr>s = example_shader stage body, environment = env, vs_key = example_key,
      gs_key = example_key, fs_key = example_fs_key, vpm_output_size = 0,
      util_varying_is_point_coord = (\<lambda>loc mask. loc = 25)\<rparr>"

definition example_intrinsic ::
  "nir_intrinsic_op \<Rightarrow> nat \<Rightarrow> nat \<Rightarrow> nir_intrinsic_instr" where
  "example_intrinsic opc loc cmp =
     \<lparr>intrinsic = opc, dest_ssa = 9, num_components = 1, src0 = Ssa 7,
      src1 = nir_imm_int 0, nir_intrinsic_base = 2, nir_intrinsic_component = cmp,
      nir_intrinsic_write_mask = 1, io_location = loc\<rparr>"

text \<open>
  The three local variables are the ones \<^verbatim>\<open>emit_gs_prolog\<close> created: the state of a
  geometry shader after its prologue.
\<close>

definition gs_vars_created :: "v3d_nir_lower_io_state \<Rightarrow> bool" where
  "gs_vars_created state =
     (gs_output_offset_var state = Some Var_output_offset \<and>
      gs_header_offset_var state = Some Var_header_offset \<and>
      gs_header_var state = Some Var_header)"

text \<open>
  The stores that \<open>v3d_nir_lower_vpm_output\<close> lowers without a failure: a store in a
  vertex shader other than one to the layer output (which fails the assertion of the layer
  block), or a store in a geometry shader after its prologue.
\<close>

definition store_lowerable ::
  "v3d_compile \<Rightarrow> nir_intrinsic_instr \<Rightarrow> v3d_nir_lower_io_state \<Rightarrow> bool" where
  "store_lowerable c intr state =
     (info_stage (s c) = MESA_SHADER_VERTEX \<and> io_location intr \<noteq> VARYING_SLOT_LAYER \<or>
      info_stage (s c) = MESA_SHADER_GEOMETRY \<and> gs_vars_created state)"

text \<open>The used-outputs table of the stage's key, and the offset register of the stage.\<close>

definition stage_used_outputs :: "v3d_compile \<Rightarrow> v3d_varying_slot list" where
  "stage_used_outputs c =
     (if info_stage (s c) = MESA_SHADER_GEOMETRY then used_outputs (gs_key c)
      else used_outputs (vs_key c))"

definition stage_offset_reg :: "v3d_compile \<Rightarrow> nir_ssa_def option" where
  "stage_offset_reg c =
     (if info_stage (s c) = MESA_SHADER_GEOMETRY then Some (nir_load_var Var_output_offset)
      else None)"

text \<open>The position of the first element equal to \<open>x\<close>, scanning the list in order.\<close>

definition first_index :: "'a list \<Rightarrow> 'a \<Rightarrow> nat" where
  "first_index xs x = length (takeWhile (\<lambda>y. y \<noteq> x) xs)"


text \<open>
  The table index after the constant offset has been added as the code adds it: reduced
  to a signed 32-bit value when the offset source is a constant, unchanged otherwise.
\<close>

definition offset_index :: "nir_intrinsic_instr \<Rightarrow> int \<Rightarrow> int" where
  "offset_index intr index =
     (if nir_src_is_const (src1 intr)
      then sint (word_of_int (index + 4 * int (nir_src_as_uint (src1 intr))) :: 32 word)
      else index)"


text \<open>
  What the component loop builds for component \<open>i\<close>: one write when the write mask
  covers the component and its pair is in the table, none otherwise.
\<close>

definition component_writes ::
  "v3d_compile \<Rightarrow> nir_intrinsic_instr \<Rightarrow> int \<Rightarrow> nat \<Rightarrow> lowered_instr list" where
  "component_writes c intr varyings_base i =
     (if bit (nir_intrinsic_write_mask intr) i
         \<and> (io_location intr, nir_intrinsic_component intr + i) \<in> set (stage_used_outputs c)
      then [v3d_nir_store_output
              (varyings_base
               + offset_index intr
                   (int (first_index (stage_used_outputs c)
                           (io_location intr, nir_intrinsic_component intr + i))))
              (stage_offset_reg c) (nir_channel (src0 intr) (num_components intr) i)]
      else [])"

text \<open>The write to the point-size slot, and the store that patches the layer into the
  header.\<close>

definition psiz_write ::
  "v3d_compile \<Rightarrow> nir_intrinsic_instr \<Rightarrow> v3d_nir_lower_io_state \<Rightarrow> lowered_instr list" where
  "psiz_write c intr state =
     (if io_location intr = VARYING_SLOT_PSIZ \<and> psiz_vpm_offset state \<noteq> -1
      then [v3d_nir_store_output (psiz_vpm_offset state) (stage_offset_reg c) (src0 intr)]
      else [])"

definition layer_header_store :: "nir_intrinsic_instr \<Rightarrow> lowered_instr list" where
  "layer_header_store intr =
     (if io_location intr = VARYING_SLOT_LAYER
      then [nir_store_var Var_header
              (nir_ior (nir_iand_imm (nir_load_var Var_header) 0xff00ffff)
                 (nir_bcsel (nir_ige (src0 intr) nir_load_fb_layers_v3d) (nir_imm_int 0)
                    (nir_ishl_imm (src0 intr) 16)))]
      else [])"

text \<open>More concrete inputs for the examples.\<close>

definition example_store :: "nat \<Rightarrow> nir_ssa_def \<Rightarrow> nir_intrinsic_instr" where
  "example_store loc off =
     (example_intrinsic nir_intrinsic_store_output loc 0)\<lparr>src1 := off\<rparr>"


definition example_vs_state :: v3d_nir_lower_io_state where
  "example_vs_state =
     snd (v3d_nir_setup_vpm_layout_vs
            (example_compile MESA_SHADER_VERTEX V3D_ENVIRONMENT_OPENGL []) zero_state)"





text \<open>
  Where a physical write goes: the offset register it is relative to, if any, and the
  slot. This reads back what \<open>v3d_nir_store_output\<close> builds.
\<close>

definition store_target :: "lowered_instr \<Rightarrow> (nir_ssa_def option \<times> int) option" where
  "store_target w =
     (case w of
        nir_store_output chan off base \<Rightarrow>
          (case off of
             nir_iadd_imm reg b \<Rightarrow> Some (Some reg, base + b)
           | _ \<Rightarrow> Some (None, base))
      | _ \<Rightarrow> None)"

text \<open>
  The fixed-function slots that are present lie below the base of the varyings, as in
  every layout the two setup functions compute.
\<close>

definition ff_slots_below_varyings :: "v3d_nir_lower_io_state \<Rightarrow> bool" where
  "ff_slots_below_varyings state =
     ((pos_vpm_offset state = -1 \<or> pos_vpm_offset state + 4 \<le> varyings_vpm_offset state) \<and>
      (vp_vpm_offset state = -1 \<or> vp_vpm_offset state + 2 \<le> varyings_vpm_offset state) \<and>
      (zs_vpm_offset state = -1 \<or> zs_vpm_offset state < varyings_vpm_offset state) \<and>
      (rcp_wc_vpm_offset state = -1 \<or> rcp_wc_vpm_offset state < varyings_vpm_offset state))"

text \<open>A vertex shader, or a geometry shader after its prologue.\<close>

definition ff_emittable :: "v3d_compile \<Rightarrow> v3d_nir_lower_io_state \<Rightarrow> bool" where
  "ff_emittable c state =
     (info_stage (s c) = MESA_SHADER_VERTEX \<or>
      info_stage (s c) = MESA_SHADER_GEOMETRY \<and> gs_vars_created state)"

text \<open>The write of 0 to varying slot \<open>i\<close>, and the writes of a list that go to a
  given slot of the current vertex.\<close>

definition zero_fill_write :: "v3d_compile \<Rightarrow> v3d_nir_lower_io_state \<Rightarrow> nat \<Rightarrow> lowered_instr" where
  "zero_fill_write c state i =
     v3d_nir_store_output (varyings_vpm_offset state + int i) (stage_offset_reg c)
       (nir_imm_int 0)"

definition writes_to_slot ::
  "v3d_compile \<Rightarrow> int \<Rightarrow> lowered_instr list \<Rightarrow> lowered_instr list" where
  "writes_to_slot c slot out =
     filter (\<lambda>w. store_target w = Some (stage_offset_reg c, slot)) out"

text \<open>
  The parts of what \<open>v3d_nir_emit_ff_vpm_outputs\<close> builds: the position component
  \<open>i\<close> or an undefined value, the writes to the fixed-function slots, the zero fill,
  and the state with the missing position components filled in.
\<close>

definition pos_or_undef :: "v3d_nir_lower_io_state \<Rightarrow> nat \<Rightarrow> nir_ssa_def" where
  "pos_or_undef state i = (case pos state i of Some d \<Rightarrow> d | None \<Rightarrow> nir_ssa_undef)"

definition ff_fixed_writes :: "v3d_compile \<Rightarrow> v3d_nir_lower_io_state \<Rightarrow> lowered_instr list" where
  "ff_fixed_writes c state =
     (if pos_vpm_offset state \<noteq> -1
      then map (\<lambda>i. v3d_nir_store_output (pos_vpm_offset state + int i) (stage_offset_reg c)
                       (pos_or_undef state i)) [0, 1, 2, 3]
      else []) @
     (if vp_vpm_offset state \<noteq> -1
      then [v3d_nir_store_output (vp_vpm_offset state) (stage_offset_reg c)
              (nir_f2i32 (nir_ffloor (nir_fmul
                 (nir_fmul (pos_or_undef state 0) nir_load_viewport_x_scale)
                 (nir_frcp (pos_or_undef state 3))))),
            v3d_nir_store_output (vp_vpm_offset state + 1) (stage_offset_reg c)
              (nir_f2i32 (nir_ffloor (nir_fmul
                 (nir_fmul (pos_or_undef state 1) nir_load_viewport_y_scale)
                 (nir_frcp (pos_or_undef state 3)))))]
      else []) @
     (if zs_vpm_offset state \<noteq> -1
      then [v3d_nir_store_output (zs_vpm_offset state) (stage_offset_reg c)
              (nir_fadd (nir_fmul
                 (nir_fmul (pos_or_undef state 2) nir_load_viewport_z_scale)
                 (nir_frcp (pos_or_undef state 3))) nir_load_viewport_z_offset)]
      else []) @
     (if rcp_wc_vpm_offset state \<noteq> -1
      then [v3d_nir_store_output (rcp_wc_vpm_offset state) (stage_offset_reg c)
              (nir_frcp (pos_or_undef state 3))]
      else [])"

definition zero_fill_writes :: "v3d_compile \<Rightarrow> v3d_nir_lower_io_state \<Rightarrow> lowered_instr list" where
  "zero_fill_writes c state =
     concat (map (\<lambda>i. if int i \<notin> varyings_stored state then [zero_fill_write c state i]
                       else []) [0..<length (stage_used_outputs c)])"

definition pos_filled :: "v3d_nir_lower_io_state \<Rightarrow> v3d_nir_lower_io_state" where
  "pos_filled state =
     state\<lparr>pos := (\<lambda>i. if i < 4 \<and> pos state i = None then Some nir_ssa_undef
                         else pos state i)\<rparr>"

text \<open>
  A geometry shader with one used output, its state after the prologue (the size of the
  data of a vertex is 5), an environment and a run-time state for the examples.
\<close>

definition example_gs_compile :: v3d_compile where
  "example_gs_compile =
     (example_compile MESA_SHADER_GEOMETRY V3D_ENVIRONMENT_OPENGL [])
       \<lparr>gs_key := example_key\<lparr>used_outputs := [(32, 0)]\<rparr>\<rparr>"

definition example_gs_state :: v3d_nir_lower_io_state where
  "example_gs_state =
     (snd (v3d_nir_setup_vpm_layout_gs example_gs_compile zero_state))
       \<lparr>gs_output_offset_var := Some Var_output_offset,
        gs_header_offset_var := Some Var_header_offset,
        gs_header_var := Some Var_header\<rparr>"

definition example_env :: "32 word \<Rightarrow> 32 word \<Rightarrow> nir_env" where
  "example_env layer layers =
     \<lparr>ssa_value = (\<lambda>n i. layer), undef_value = 0, float_bits = (\<lambda>x. 0),
      viewport_x_scale = 0, viewport_y_scale = 0, viewport_z_scale = 0,
      viewport_z_offset = 0, fb_layers = layers,
      op_frcp = (\<lambda>x. x), op_ffloor = (\<lambda>x. x), op_f2i32 = (\<lambda>x. x),
      op_fmul = (\<lambda>x y. x), op_fadd = (\<lambda>x y. x), op_fsub = (\<lambda>x y. x)\<rparr>"

definition example_rt :: "32 word \<Rightarrow> vpm_state" where
  "example_rt header =
     \<lparr>var_value = (\<lambda>var. case var of Var_output_offset \<Rightarrow> 4
                              | Var_header_offset \<Rightarrow> 1 | Var_header \<Rightarrow> header),
      vpm_writes = []\<rparr>"

text \<open>
  An emit-vertex or end-primitive instruction; only geometry shaders contain them.
  \<open>lower_uniform_instr\<close> is the uniform rewrite applied to an instruction when it is a
  load-uniform.
\<close>

definition emits_or_ends :: "nir_instr \<Rightarrow> bool" where
  "emits_or_ends instr =
     (case instr of
        Intrinsic intr \<Rightarrow> intrinsic intr = nir_intrinsic_emit_vertex
                          \<or> intrinsic intr = nir_intrinsic_end_primitive
      | Other_instr d srcs \<Rightarrow> False)"

definition lower_uniform_instr :: "v3d_compile \<Rightarrow> nir_instr \<Rightarrow> nir_instr" where
  "lower_uniform_instr c instr =
     (case instr of
        Intrinsic intr \<Rightarrow>
          if intrinsic intr = nir_intrinsic_load_uniform
          then Intrinsic (v3d_nir_lower_uniform c intr) else instr
      | Other_instr d srcs \<Rightarrow> instr)"

definition example_uniform_load :: nir_instr where
  "example_uniform_load =
     Intrinsic ((example_intrinsic nir_intrinsic_load_uniform 0 0)\<lparr>nir_intrinsic_base := 4\<rparr>)"

text \<open>
  The body of a fragment shader: a load of component \<open>cmp\<close> of the point coordinate
  (it defines value 9), and two instructions that use the loaded value.
\<close>

definition example_fs_body :: "nat \<Rightarrow> nir_instr list" where
  "example_fs_body cmp =
     [Intrinsic (example_intrinsic nir_intrinsic_load_input 25 cmp),
      Other_instr 3 [Ssa 9, Ssa 5],
      Intrinsic ((example_intrinsic nir_intrinsic_other 0 0)\<lparr>src0 := Ssa 9, src1 := Ssa 3\<rparr>)]"

section \<open>Properties\<close>

subsection \<open>The vertex-stage layout\<close>

lemma update_output_var_base_size:
  "v3d_nir_lower_io_update_output_var_base c state = Inr c' \<Longrightarrow>
   vpm_output_size c' = vpm_output_size c"
  by (auto simp: v3d_nir_lower_io_update_output_var_base_def bind_err_def split: sum.splits)

text \<open>
  C2: for a vertex shader the five fixed-function offsets and the base of the varyings
  are the allocation the specification describes (all absent and base 0 when the stage is
  not the last geometry stage; otherwise position 4 slots if \<open>is_coord\<close>, viewport 2
  slots, depth and reciprocal W one slot each if not \<open>is_coord\<close>, point size one slot
  if asked for), and the size written to the compile context is
  \<open>max 1 (varyings_base + num_used_outputs)\<close>; it is the size the context has when
  the pass returns.
\<close>

theorem C2_vs_layout:
  assumes "v3d_nir_setup_vpm_layout_vs c state = (c', state')"
  shows "([pos_vpm_offset state', vp_vpm_offset state', zs_vpm_offset state',
           rcp_wc_vpm_offset state', psiz_vpm_offset state'], varyings_vpm_offset state')
          = spec_vs_layout (vs_key c) \<and>
     vpm_output_size c'
          = max 1 (varyings_vpm_offset state' + int (num_used_outputs (vs_key c))) \<and>
     (\<forall>c2 lowered. info_stage (s c) = MESA_SHADER_VERTEX \<and> state = zero_state
         \<and> v3d_nir_lower_io c = Inr (c2, lowered)
        \<longrightarrow> vpm_output_size c2 = vpm_output_size c')"
proof -
  have a: "([pos_vpm_offset state', vp_vpm_offset state', zs_vpm_offset state',
           rcp_wc_vpm_offset state', psiz_vpm_offset state'], varyings_vpm_offset state')
          = spec_vs_layout (vs_key c) \<and>
     vpm_output_size c'
          = max 1 (varyings_vpm_offset state' + int (num_used_outputs (vs_key c)))"
    using assms
    by (auto simp: v3d_nir_setup_vpm_layout_vs_def spec_vs_layout_def Let_def
        split: if_splits)
  have st: "info_stage (s c') = info_stage (s c)"
    using assms by (auto simp: v3d_nir_setup_vpm_layout_vs_def Let_def split_def)
  have b: "vpm_output_size c2 = vpm_output_size c'"
    if "info_stage (s c) = MESA_SHADER_VERTEX" "state = zero_state"
      "v3d_nir_lower_io c = Inr (c2, lowered)" for c2 lowered
    using that assms st update_output_var_base_size
    by (auto simp: v3d_nir_lower_io_def bind_err_def split: sum.splits prod.splits)
  show ?thesis using a b by blast
qed

lemma example_vs_pass:
  "\<exists>c2 lowered. v3d_nir_lower_io (example_compile MESA_SHADER_VERTEX V3D_ENVIRONMENT_OPENGL [])
      = Inr (c2, lowered)"
  by (simp add: v3d_nir_lower_io_def bind_err_def lower_impl_def
      v3d_nir_lower_io_update_output_var_base_def
      v3d_nir_emit_ff_vpm_outputs_def load_offset_reg_def Let_def
      v3d_nir_setup_vpm_layout_vs_def example_key_def zero_state_def
      example_compile_def example_shader_def split_def)

text \<open>
  The example of the claim: last geometry stage, not a coordinate shader, no per-vertex
  point size, two used outputs.
\<close>

theorem C2_vs_layout_witness:
  "pos_vpm_offset (snd (v3d_nir_setup_vpm_layout_vs
       (example_compile MESA_SHADER_VERTEX V3D_ENVIRONMENT_OPENGL []) zero_state)) = -1 \<and>
   vp_vpm_offset (snd (v3d_nir_setup_vpm_layout_vs
       (example_compile MESA_SHADER_VERTEX V3D_ENVIRONMENT_OPENGL []) zero_state)) = 0 \<and>
   zs_vpm_offset (snd (v3d_nir_setup_vpm_layout_vs
       (example_compile MESA_SHADER_VERTEX V3D_ENVIRONMENT_OPENGL []) zero_state)) = 2 \<and>
   rcp_wc_vpm_offset (snd (v3d_nir_setup_vpm_layout_vs
       (example_compile MESA_SHADER_VERTEX V3D_ENVIRONMENT_OPENGL []) zero_state)) = 3 \<and>
   psiz_vpm_offset (snd (v3d_nir_setup_vpm_layout_vs
       (example_compile MESA_SHADER_VERTEX V3D_ENVIRONMENT_OPENGL []) zero_state)) = -1 \<and>
   varyings_vpm_offset (snd (v3d_nir_setup_vpm_layout_vs
       (example_compile MESA_SHADER_VERTEX V3D_ENVIRONMENT_OPENGL []) zero_state)) = 4 \<and>
   vpm_output_size (fst (v3d_nir_setup_vpm_layout_vs
       (example_compile MESA_SHADER_VERTEX V3D_ENVIRONMENT_OPENGL []) zero_state)) = 6 \<and>
   vpm_output_size (fst (projr (v3d_nir_lower_io
       (example_compile MESA_SHADER_VERTEX V3D_ENVIRONMENT_OPENGL [])))) = 6"
proof -
  let ?c = "example_compile MESA_SHADER_VERTEX V3D_ENVIRONMENT_OPENGL []"
  have k: "vs_key ?c = example_key" "info_stage (s ?c) = MESA_SHADER_VERTEX"
    by (simp_all add: example_compile_def example_shader_def)
  have l: "spec_vs_layout example_key = ([-1, 0, 2, 3, -1], 4)"
    by (simp add: spec_vs_layout_def example_key_def)
  have n: "num_used_outputs example_key = 2"
    by (simp add: num_used_outputs_def example_key_def)
  obtain c2 lowered where p: "v3d_nir_lower_io ?c = Inr (c2, lowered)"
    using example_vs_pass by blast
  show ?thesis
    using C2_vs_layout [of ?c zero_state "fst (v3d_nir_setup_vpm_layout_vs ?c zero_state)"
        "snd (v3d_nir_setup_vpm_layout_vs ?c zero_state)"] p
    by (simp add: k l n)
qed

subsection \<open>Uniform offsets\<close>

text \<open>
  C6: a load-uniform is left as it is under Vulkan; in any other environment its base
  \<open>B\<close> becomes \<open>B * 16\<close> and its index \<open>I\<close> becomes \<open>I << 4\<close> (whose value is
  sixteen times that of \<open>I\<close>), and nothing else of the instruction changes. The walk
  applies this to every load-uniform, in every stage.
\<close>

theorem C6_uniform_offset:
  "(environment c = V3D_ENVIRONMENT_VULKAN \<longrightarrow> v3d_nir_lower_uniform c intr = intr) \<and>
   (environment c \<noteq> V3D_ENVIRONMENT_VULKAN \<longrightarrow>
      v3d_nir_lower_uniform c intr =
        intr\<lparr>nir_intrinsic_base := nir_intrinsic_base intr * 16,
             src0 := nir_ishl_imm (src0 intr) 4\<rparr> \<and>
      nir_eval env vars (src0 (v3d_nir_lower_uniform c intr)) i
        = nir_eval env vars (src0 intr) i * 16) \<and>
   (intrinsic intr = nir_intrinsic_load_uniform \<longrightarrow>
      v3d_nir_lower_io_instr c (Intrinsic intr) state =
        Inr (state, [Kept (Intrinsic (v3d_nir_lower_uniform c intr))], None))"
  by (simp add: v3d_nir_lower_uniform_def v3d_nir_lower_io_instr_def push_bit_eq_mult
      mult.commute)

theorem C6_uniform_offset_witness:
  "v3d_nir_lower_uniform (example_compile MESA_SHADER_VERTEX V3D_ENVIRONMENT_VULKAN [])
       ((example_intrinsic nir_intrinsic_load_uniform 0 0)\<lparr>nir_intrinsic_base := 4\<rparr>)
     = (example_intrinsic nir_intrinsic_load_uniform 0 0)\<lparr>nir_intrinsic_base := 4\<rparr> \<and>
   v3d_nir_lower_uniform (example_compile MESA_SHADER_VERTEX V3D_ENVIRONMENT_OPENGL [])
       ((example_intrinsic nir_intrinsic_load_uniform 0 0)\<lparr>nir_intrinsic_base := 4\<rparr>)
     = (example_intrinsic nir_intrinsic_load_uniform 0 0)
         \<lparr>nir_intrinsic_base := 64, src0 := nir_ishl_imm (Ssa 7) 4\<rparr>"
  using C6_uniform_offset [of "example_compile MESA_SHADER_VERTEX V3D_ENVIRONMENT_VULKAN []"
      "(example_intrinsic nir_intrinsic_load_uniform 0 0)\<lparr>nir_intrinsic_base := 4\<rparr>"]
    C6_uniform_offset [of "example_compile MESA_SHADER_VERTEX V3D_ENVIRONMENT_OPENGL []"
      "(example_intrinsic nir_intrinsic_load_uniform 0 0)\<lparr>nir_intrinsic_base := 4\<rparr>"]
  by (simp add: example_compile_def example_intrinsic_def)

subsection \<open>The point coordinate in a fragment shader\<close>

lemma rewrite_instr_explicit:
  "rewrite_instr d r =
     (\<lambda>instr. case instr of
        Intrinsic j \<Rightarrow>
          Intrinsic (j\<lparr>src0 := (if src0 j = Ssa d then r else src0 j),
                      src1 := (if src1 j = Ssa d then r else src1 j)\<rparr>)
      | Other_instr dst srcs \<Rightarrow>
          Other_instr dst (map (\<lambda>x. if x = Ssa d then r else x) srcs))"
  by (rule ext) (simp add: rewrite_src_def comp_def split: nir_instr.splits)

lemma rewrite_instr_same: "map (rewrite_instr d (Ssa d)) rest = rest"
proof -
  have "rewrite_instr d (Ssa d) instr = instr" for instr
    by (cases instr) (simp_all add: rewrite_src_def map_idI)
  then show ?thesis by (simp add: map_idI)
qed

lemma lower_instrs_others:
  "lower_instrs c (map (\<lambda>(dst, srcs). Other_instr dst srcs) others) state =
     Inr (state, map (\<lambda>(dst, srcs). Kept (Other_instr dst srcs)) others)"
  by (induction others)
     (auto simp: v3d_nir_lower_io_instr_def nir_ssa_def_rewrite_uses_after_def)

lemma lower_instrs_load_input_fs:
  assumes "info_stage (s c) = MESA_SHADER_FRAGMENT"
    and "intrinsic intr = nir_intrinsic_load_input"
    and "v3d_nir_lower_fragment_input c intr = Inr result"
  shows "lower_instrs c (Intrinsic intr # rest) state =
     (case lower_instrs c
             (map (rewrite_instr (dest_ssa intr)
                     (case result of Some r \<Rightarrow> r | None \<Rightarrow> Ssa (dest_ssa intr))) rest) state of
        Inl e \<Rightarrow> Inl e
      | Inr (state2, out2) \<Rightarrow> Inr (state2, Kept (Intrinsic intr) # out2))"
  using assms
  by (cases result)
     (simp_all add: v3d_nir_lower_io_instr_def bind_err_def nir_ssa_def_rewrite_uses_after_def
        rewrite_instr_same split: sum.split)

text \<open>
  C7: a fragment-stage load of one component of the point coordinate (outside the OpenGL
  environment, the input variable found and recognised through the point-sprite mask).
  The pass keeps the load and replaces the loaded value, in every source of every later
  instruction that uses it, by a value \<open>r\<close>: when not rendering points, \<open>r\<close> is 0.0
  for components 0 and 1; it is 0.0 for component 2 and 1.0 for component 3; with the
  upper-left origin, \<open>r\<close> for component 1 is \<open>1 - value\<close>, where \<open>value\<close> is the
  result so far (0.0 when not rendering points, the loaded value otherwise). When
  rendering points, components 0 and 1 are otherwise left as loaded. The replacement is
  written out: the walk over the instructions goes on with the later instructions so
  rewritten, and later instructions that are no intrinsics come out with their sources
  replaced.
\<close>

theorem C7_point_coord:
  assumes "info_stage (s c) = MESA_SHADER_FRAGMENT"
    and "environment c \<noteq> V3D_ENVIRONMENT_OPENGL"
    and "nir_find_variable_with_driver_location (s c) (nir_intrinsic_base intr) = Some var"
    and "util_varying_is_point_coord c (data_location var) (point_sprite_mask (fs_key c))"
    and "num_components intr = 1"
    and "intrinsic intr = nir_intrinsic_load_input"
  shows "\<exists>r.
     (\<not> is_points (fs_key c) \<and> nir_intrinsic_component intr = 0 \<longrightarrow> r = nir_imm_float 0) \<and>
     (\<not> is_points (fs_key c) \<and> nir_intrinsic_component intr = 1
        \<and> \<not> point_coord_upper_left (fs_key c) \<longrightarrow> r = nir_imm_float 0) \<and>
     (\<not> is_points (fs_key c) \<and> nir_intrinsic_component intr = 1
        \<and> point_coord_upper_left (fs_key c) \<longrightarrow>
        r = nir_fsub (nir_imm_float 1) (nir_imm_float 0)) \<and>
     (is_points (fs_key c) \<and> nir_intrinsic_component intr = 0 \<longrightarrow> r = Ssa (dest_ssa intr)) \<and>
     (is_points (fs_key c) \<and> nir_intrinsic_component intr = 1
        \<and> \<not> point_coord_upper_left (fs_key c) \<longrightarrow> r = Ssa (dest_ssa intr)) \<and>
     (is_points (fs_key c) \<and> nir_intrinsic_component intr = 1
        \<and> point_coord_upper_left (fs_key c) \<longrightarrow>
        r = nir_fsub (nir_imm_float 1) (Ssa (dest_ssa intr))) \<and>
     (nir_intrinsic_component intr = 2 \<longrightarrow> r = nir_imm_float 0) \<and>
     (nir_intrinsic_component intr = 3 \<longrightarrow> r = nir_imm_float 1) \<and>
     (\<forall>rest state.
        lower_instrs c (Intrinsic intr # rest) state =
          (case lower_instrs c
                  (map (\<lambda>instr. case instr of
                          Intrinsic j \<Rightarrow>
                            Intrinsic
                              (j\<lparr>src0 := (if src0 j = Ssa (dest_ssa intr) then r else src0 j),
                                 src1 := (if src1 j = Ssa (dest_ssa intr) then r else src1 j)\<rparr>)
                        | Other_instr dst srcs \<Rightarrow>
                            Other_instr dst
                              (map (\<lambda>x. if x = Ssa (dest_ssa intr) then r else x) srcs))
                     rest) state of
             Inl e \<Rightarrow> Inl e
           | Inr (state2, out2) \<Rightarrow> Inr (state2, Kept (Intrinsic intr) # out2))) \<and>
     (\<forall>others state.
        lower_instrs c (Intrinsic intr # map (\<lambda>(dst, srcs). Other_instr dst srcs) others) state =
          Inr (state,
               Kept (Intrinsic intr) #
               map (\<lambda>(dst, srcs).
                      Kept (Other_instr dst
                              (map (\<lambda>x. if x = Ssa (dest_ssa intr) then r else x) srcs)))
                 others)) \<and>
     (\<forall>env vars i.
        nir_eval env vars (nir_fsub (nir_imm_float 1) (nir_imm_float 0)) i =
          op_fsub env (float_bits env 1) (float_bits env 0) \<and>
        nir_eval env vars (nir_fsub (nir_imm_float 1) (Ssa (dest_ssa intr))) i =
          op_fsub env (float_bits env 1) (ssa_value env (dest_ssa intr) i))"
proof -
  have "\<exists>result. v3d_nir_lower_fragment_input c intr = Inr result \<and>
     (\<not> is_points (fs_key c) \<and> nir_intrinsic_component intr = 0 \<longrightarrow>
               result = Some (nir_imm_float 0)) \<and>
     (\<not> is_points (fs_key c) \<and> nir_intrinsic_component intr = 1
        \<and> \<not> point_coord_upper_left (fs_key c) \<longrightarrow> result = Some (nir_imm_float 0)) \<and>
     (\<not> is_points (fs_key c) \<and> nir_intrinsic_component intr = 1
        \<and> point_coord_upper_left (fs_key c) \<longrightarrow>
        result = Some (nir_fsub (nir_imm_float 1) (nir_imm_float 0))) \<and>
     (is_points (fs_key c) \<and> nir_intrinsic_component intr = 0 \<longrightarrow> result = None) \<and>
     (is_points (fs_key c) \<and> nir_intrinsic_component intr = 1
        \<and> \<not> point_coord_upper_left (fs_key c) \<longrightarrow> result = None) \<and>
     (is_points (fs_key c) \<and> nir_intrinsic_component intr = 1
        \<and> point_coord_upper_left (fs_key c) \<longrightarrow>
        result = Some (nir_fsub (nir_imm_float 1) (Ssa (dest_ssa intr)))) \<and>
     (nir_intrinsic_component intr = 2 \<longrightarrow> result = Some (nir_imm_float 0)) \<and>
     (nir_intrinsic_component intr = 3 \<longrightarrow> result = Some (nir_imm_float 1))"
    using assms(1-5)
    by (simp add: v3d_nir_lower_fragment_input_def Let_def nir_fsub_imm_def)
  then obtain result where f: "v3d_nir_lower_fragment_input c intr = Inr result"
    and r: "(\<not> is_points (fs_key c) \<and> nir_intrinsic_component intr = 0 \<longrightarrow>
               result = Some (nir_imm_float 0)) \<and>
     (\<not> is_points (fs_key c) \<and> nir_intrinsic_component intr = 1
        \<and> \<not> point_coord_upper_left (fs_key c) \<longrightarrow> result = Some (nir_imm_float 0)) \<and>
     (\<not> is_points (fs_key c) \<and> nir_intrinsic_component intr = 1
        \<and> point_coord_upper_left (fs_key c) \<longrightarrow>
        result = Some (nir_fsub (nir_imm_float 1) (nir_imm_float 0))) \<and>
     (is_points (fs_key c) \<and> nir_intrinsic_component intr = 0 \<longrightarrow> result = None) \<and>
     (is_points (fs_key c) \<and> nir_intrinsic_component intr = 1
        \<and> \<not> point_coord_upper_left (fs_key c) \<longrightarrow> result = None) \<and>
     (is_points (fs_key c) \<and> nir_intrinsic_component intr = 1
        \<and> point_coord_upper_left (fs_key c) \<longrightarrow>
        result = Some (nir_fsub (nir_imm_float 1) (Ssa (dest_ssa intr)))) \<and>
     (nir_intrinsic_component intr = 2 \<longrightarrow> result = Some (nir_imm_float 0)) \<and>
     (nir_intrinsic_component intr = 3 \<longrightarrow> result = Some (nir_imm_float 1))"
    by blast
  let ?r = "case result of Some r \<Rightarrow> r | None \<Rightarrow> Ssa (dest_ssa intr)"
  have w: "lower_instrs c (Intrinsic intr # rest) state =
     (case lower_instrs c (map (rewrite_instr (dest_ssa intr) ?r) rest) state of
        Inl e \<Rightarrow> Inl e
      | Inr (state2, out2) \<Rightarrow> Inr (state2, Kept (Intrinsic intr) # out2))" for rest state
    by (rule lower_instrs_load_input_fs [OF assms(1) assms(6) f])
  have m: "map (rewrite_instr (dest_ssa intr) ?r)
             (map (\<lambda>(dst, srcs). Other_instr dst srcs) others) =
           map (\<lambda>(dst, srcs). Other_instr dst srcs)
             (map (\<lambda>(dst, srcs). (dst, map (\<lambda>x. if x = Ssa (dest_ssa intr) then ?r else x) srcs))
                others)" for others
    by (simp add: rewrite_src_def comp_def case_prod_beta)
  have o: "lower_instrs c (Intrinsic intr # map (\<lambda>(dst, srcs). Other_instr dst srcs) others)
             state =
          Inr (state,
               Kept (Intrinsic intr) #
               map (\<lambda>(dst, srcs).
                      Kept (Other_instr dst
                              (map (\<lambda>x. if x = Ssa (dest_ssa intr) then ?r else x) srcs)))
                 others)" for others state
    unfolding w m lower_instrs_others by (simp add: comp_def case_prod_beta)
  show ?thesis
    apply (rule exI [of _ ?r])
    apply (intro conjI allI)
    using r apply (auto)[8]
      apply (simp only: w rewrite_instr_explicit)
     apply (rule o)
    apply simp
   apply simp
    done
qed

text \<open>
  Not rendering points, upper-left origin: a use of the loaded value becomes 0.0 for
  components 0 and 2, 1.0 for component 3, and \<open>1 - 0.0\<close> for component 1, here
  through the whole pass.
\<close>

theorem C7_point_coord_witness:
  "lower_instrs (example_compile MESA_SHADER_FRAGMENT V3D_ENVIRONMENT_VULKAN [])
      [Intrinsic (example_intrinsic nir_intrinsic_load_input 25 0),
       Other_instr 3 [Ssa 9, Ssa 5]] zero_state
     = Inr (zero_state,
            [Kept (Intrinsic (example_intrinsic nir_intrinsic_load_input 25 0)),
             Kept (Other_instr 3 [nir_imm_float 0, Ssa 5])]) \<and>
   lower_instrs (example_compile MESA_SHADER_FRAGMENT V3D_ENVIRONMENT_VULKAN [])
      [Intrinsic (example_intrinsic nir_intrinsic_load_input 25 2),
       Other_instr 3 [Ssa 9, Ssa 5]] zero_state
     = Inr (zero_state,
            [Kept (Intrinsic (example_intrinsic nir_intrinsic_load_input 25 2)),
             Kept (Other_instr 3 [nir_imm_float 0, Ssa 5])]) \<and>
   lower_instrs (example_compile MESA_SHADER_FRAGMENT V3D_ENVIRONMENT_VULKAN [])
      [Intrinsic (example_intrinsic nir_intrinsic_load_input 25 3),
       Other_instr 3 [Ssa 9, Ssa 5]] zero_state
     = Inr (zero_state,
            [Kept (Intrinsic (example_intrinsic nir_intrinsic_load_input 25 3)),
             Kept (Other_instr 3 [nir_imm_float 1, Ssa 5])]) \<and>
   v3d_nir_lower_io
      (example_compile MESA_SHADER_FRAGMENT V3D_ENVIRONMENT_VULKAN (example_fs_body 1))
     = Inr (example_compile MESA_SHADER_FRAGMENT V3D_ENVIRONMENT_VULKAN (example_fs_body 1),
            [[Kept (Intrinsic (example_intrinsic nir_intrinsic_load_input 25 1)),
              Kept (Other_instr 3 [nir_fsub (nir_imm_float 1) (nir_imm_float 0), Ssa 5]),
              Kept (Intrinsic ((example_intrinsic nir_intrinsic_other 0 0)
                      \<lparr>src0 := nir_fsub (nir_imm_float 1) (nir_imm_float 0),
                       src1 := Ssa 3\<rparr>))]])"
proof -
  let ?v = "\<lparr>data_location = 25, data_location_frac = 0, data_driver_location = 2\<rparr>"
  have a: "info_stage (s (example_compile MESA_SHADER_FRAGMENT V3D_ENVIRONMENT_VULKAN body))
             = MESA_SHADER_FRAGMENT"
    and b: "environment (example_compile MESA_SHADER_FRAGMENT V3D_ENVIRONMENT_VULKAN body)
             \<noteq> V3D_ENVIRONMENT_OPENGL"
    and d: "util_varying_is_point_coord
              (example_compile MESA_SHADER_FRAGMENT V3D_ENVIRONMENT_VULKAN body)
              (data_location ?v)
              (point_sprite_mask
                 (fs_key (example_compile MESA_SHADER_FRAGMENT V3D_ENVIRONMENT_VULKAN body)))"
    and k: "\<not> is_points
              (fs_key (example_compile MESA_SHADER_FRAGMENT V3D_ENVIRONMENT_VULKAN body))"
      "point_coord_upper_left
         (fs_key (example_compile MESA_SHADER_FRAGMENT V3D_ENVIRONMENT_VULKAN body))"
    and f: "nir_find_variable_with_driver_location
              (s (example_compile MESA_SHADER_FRAGMENT V3D_ENVIRONMENT_VULKAN body))
              (nir_intrinsic_base (example_intrinsic nir_intrinsic_load_input 25 n)) = Some ?v"
    for body n
    by (simp_all add: example_compile_def example_shader_def example_fs_key_def
        nir_find_variable_with_driver_location_def example_intrinsic_def)
  have n: "num_components (example_intrinsic nir_intrinsic_load_input 25 n) = 1"
    and m: "nir_intrinsic_component (example_intrinsic nir_intrinsic_load_input 25 n) = n"
    and i: "intrinsic (example_intrinsic nir_intrinsic_load_input 25 n)
              = nir_intrinsic_load_input"
    and e: "dest_ssa (example_intrinsic nir_intrinsic_load_input 25 n) = 9"
    for n
    by (simp_all add: example_intrinsic_def)
  have g: "\<exists>r. (n = 0 \<longrightarrow> r = nir_imm_float 0) \<and>
      (n = 1 \<longrightarrow> r = nir_fsub (nir_imm_float 1) (nir_imm_float 0)) \<and>
      (n = 2 \<longrightarrow> r = nir_imm_float 0) \<and>
      (n = 3 \<longrightarrow> r = nir_imm_float 1) \<and>
      (\<forall>rest state.
         lower_instrs (example_compile MESA_SHADER_FRAGMENT V3D_ENVIRONMENT_VULKAN body)
           (Intrinsic (example_intrinsic nir_intrinsic_load_input 25 n) # rest) state =
         (case lower_instrs (example_compile MESA_SHADER_FRAGMENT V3D_ENVIRONMENT_VULKAN body)
                 (map (rewrite_instr 9 r) rest) state of
            Inl e \<Rightarrow> Inl e
          | Inr (state2, out2) \<Rightarrow>
              Inr (state2,
                   Kept (Intrinsic (example_intrinsic nir_intrinsic_load_input 25 n)) # out2)))"
    for body n
    using C7_point_coord [OF a b f d n i, of body n] k [of body]
    apply (elim exE conjE)
    apply (rule_tac x = r in exI)
    apply (simp add: m e rewrite_instr_explicit del: lower_instrs.simps)
    done
  have h: "lower_instrs (example_compile MESA_SHADER_FRAGMENT V3D_ENVIRONMENT_VULKAN body)
             (Intrinsic (example_intrinsic nir_intrinsic_load_input 25 n) # rest) state =
           (case lower_instrs (example_compile MESA_SHADER_FRAGMENT V3D_ENVIRONMENT_VULKAN body)
                   (map (rewrite_instr 9
                           (if n = 1 then nir_fsub (nir_imm_float 1) (nir_imm_float 0)
                            else if n = 3 then nir_imm_float 1 else nir_imm_float 0)) rest)
                   state of
              Inl e \<Rightarrow> Inl e
            | Inr (state2, out2) \<Rightarrow>
                Inr (state2,
                     Kept (Intrinsic (example_intrinsic nir_intrinsic_load_input 25 n)) # out2))"
    if "n < 4" for body n rest state
  proof -
    obtain r where r: "n = 0 \<longrightarrow> r = nir_imm_float 0"
      "n = 1 \<longrightarrow> r = nir_fsub (nir_imm_float 1) (nir_imm_float 0)"
      "n = 2 \<longrightarrow> r = nir_imm_float 0" "n = 3 \<longrightarrow> r = nir_imm_float 1"
      and l: "\<And>rest state.
         lower_instrs (example_compile MESA_SHADER_FRAGMENT V3D_ENVIRONMENT_VULKAN body)
           (Intrinsic (example_intrinsic nir_intrinsic_load_input 25 n) # rest) state =
         (case lower_instrs (example_compile MESA_SHADER_FRAGMENT V3D_ENVIRONMENT_VULKAN body)
                 (map (rewrite_instr 9 r) rest) state of
            Inl e \<Rightarrow> Inl e
          | Inr (state2, out2) \<Rightarrow>
              Inr (state2,
                   Kept (Intrinsic (example_intrinsic nir_intrinsic_load_input 25 n)) # out2))"
      using g [of n body] by blast
    have "r = (if n = 1 then nir_fsub (nir_imm_float 1) (nir_imm_float 0)
               else if n = 3 then nir_imm_float 1 else nir_imm_float 0)"
      using r that by (cases "n = 0"; cases "n = 1"; cases "n = 2"; cases "n = 3") simp_all
    then show ?thesis using l by simp
  qed
  have 0: "lower_instrs (example_compile MESA_SHADER_FRAGMENT V3D_ENVIRONMENT_VULKAN [])
      [Intrinsic (example_intrinsic nir_intrinsic_load_input 25 0),
       Other_instr 3 [Ssa 9, Ssa 5]] zero_state
     = Inr (zero_state,
            [Kept (Intrinsic (example_intrinsic nir_intrinsic_load_input 25 0)),
             Kept (Other_instr 3 [nir_imm_float 0, Ssa 5])])"
    by (subst h) (simp_all add: rewrite_src_def v3d_nir_lower_io_instr_def
        nir_ssa_def_rewrite_uses_after_def)
  have 2: "lower_instrs (example_compile MESA_SHADER_FRAGMENT V3D_ENVIRONMENT_VULKAN [])
      [Intrinsic (example_intrinsic nir_intrinsic_load_input 25 2),
       Other_instr 3 [Ssa 9, Ssa 5]] zero_state
     = Inr (zero_state,
            [Kept (Intrinsic (example_intrinsic nir_intrinsic_load_input 25 2)),
             Kept (Other_instr 3 [nir_imm_float 0, Ssa 5])])"
    by (subst h) (simp_all add: rewrite_src_def v3d_nir_lower_io_instr_def
        nir_ssa_def_rewrite_uses_after_def)
  have 3: "lower_instrs (example_compile MESA_SHADER_FRAGMENT V3D_ENVIRONMENT_VULKAN [])
      [Intrinsic (example_intrinsic nir_intrinsic_load_input 25 3),
       Other_instr 3 [Ssa 9, Ssa 5]] zero_state
     = Inr (zero_state,
            [Kept (Intrinsic (example_intrinsic nir_intrinsic_load_input 25 3)),
             Kept (Other_instr 3 [nir_imm_float 1, Ssa 5])])"
    by (subst h) (simp_all add: rewrite_src_def v3d_nir_lower_io_instr_def
        nir_ssa_def_rewrite_uses_after_def)
  let ?c = "example_compile MESA_SHADER_FRAGMENT V3D_ENVIRONMENT_VULKAN (example_fs_body 1)"
  have l: "lower_instrs ?c (example_fs_body 1) zero_state
     = Inr (zero_state,
            [Kept (Intrinsic (example_intrinsic nir_intrinsic_load_input 25 1)),
              Kept (Other_instr 3 [nir_fsub (nir_imm_float 1) (nir_imm_float 0), Ssa 5]),
              Kept (Intrinsic ((example_intrinsic nir_intrinsic_other 0 0)
                      \<lparr>src0 := nir_fsub (nir_imm_float 1) (nir_imm_float 0),
                       src1 := Ssa 3\<rparr>))])"
    unfolding example_fs_body_def
    by (subst h) (simp_all add: rewrite_src_def v3d_nir_lower_io_instr_def
        nir_ssa_def_rewrite_uses_after_def example_intrinsic_def)
  have im: "impls (s ?c) = [example_fs_body 1]"
    by (simp add: example_compile_def example_shader_def)
  have p: "v3d_nir_lower_io ?c = Inr (?c,
            [[Kept (Intrinsic (example_intrinsic nir_intrinsic_load_input 25 1)),
              Kept (Other_instr 3 [nir_fsub (nir_imm_float 1) (nir_imm_float 0), Ssa 5]),
              Kept (Intrinsic ((example_intrinsic nir_intrinsic_other 0 0)
                      \<lparr>src0 := nir_fsub (nir_imm_float 1) (nir_imm_float 0),
                       src1 := Ssa 3\<rparr>))]])"
    by (simp add: v3d_nir_lower_io_def lower_impl_def bind_err_def a l im del: One_nat_def)
  show ?thesis
    by (intro conjI 0 2 3 p)
qed

subsection \<open>The size of the vertex data in the geometry header\<close>

lemma and_ffffff00_eq_0_iff: "(w AND 0xffffff00 = 0) = (unat w < 256)" for w :: "32 word"
proof -
  have m: "(0xffffff00 :: 32 word) = NOT (mask 8)" by (simp add: mask_eq_exp_minus_1)
  have "(w AND NOT (mask 8) = 0) = (w AND mask 8 = w)"
    by (auto simp: bit_eq_iff bit_and_iff bit_not_iff bit_mask_iff)
  also have "\<dots> = (uint w < 2 ^ 8)"
    by (rule mask_eq_iff)
  also have "\<dots> = (unat w < 256)"
  proof -
    have u: "uint w = int (unat w)" by simp
    have p: "(2::int) ^ 8 = 256" by simp
    show ?thesis unfolding u p by linarith
  qed
  finally show ?thesis unfolding m .
qed

lemma reset_gs_header_assert:
  "reset_gs_header state = Inl Assertion_failed
     \<longleftrightarrow> \<not> unat (gs_output_vertex_data_size state) < 256"
  by (simp add: reset_gs_header_def Let_def and_ffffff00_eq_0_iff split: option.splits)

lemma layout_gs_keeps:
  "gs_output_offset_var (snd (v3d_nir_setup_vpm_layout_gs c state)) = gs_output_offset_var state"
  "gs_header_offset_var (snd (v3d_nir_setup_vpm_layout_gs c state)) = gs_header_offset_var state"
  "gs_header_var (snd (v3d_nir_setup_vpm_layout_gs c state)) = gs_header_var state"
  "info_stage (s (fst (v3d_nir_setup_vpm_layout_gs c state))) = info_stage (s c)"
  "impls (s (fst (v3d_nir_setup_vpm_layout_gs c state))) = impls (s c)"
  by (simp_all add: v3d_nir_setup_vpm_layout_gs_def Let_def split_def)

lemma emit_gs_prolog_assert:
  assumes "gs_output_offset_var state = None" "gs_header_offset_var state = None"
    "gs_header_var state = None" "\<not> unat (gs_output_vertex_data_size state) < 256"
  shows "emit_gs_prolog c state = Inl Assertion_failed"
  using assms
  by (simp add: emit_gs_prolog_def Let_def bind_err_def reset_gs_header_def
      and_ffffff00_eq_0_iff)

text \<open>
  C9: the header reset fails its assertion exactly when
  \<open>vertex_data_size AND 0xffffff00\<close> is not zero, that is, when the size does not fit
  in 8 bits; with a size below 256 the assertion failure is not reached. The failure is
  fatal: in a geometry shader whose layout gives a size of 256 or more, the whole pass
  ends with the assertion failure.
\<close>

theorem C9_vertex_data_size_assert:
  "(reset_gs_header state = Inl Assertion_failed)
     = (gs_output_vertex_data_size state AND 0xffffff00 \<noteq> 0) \<and>
   (unat (gs_output_vertex_data_size state) < 256 \<longrightarrow>
      reset_gs_header state \<noteq> Inl Assertion_failed) \<and>
   (\<not> unat (gs_output_vertex_data_size state) < 256 \<longrightarrow>
      reset_gs_header state = Inl Assertion_failed) \<and>
   (info_stage (s c) = MESA_SHADER_GEOMETRY \<and> impls (s c) \<noteq> [] \<and>
    \<not> unat (gs_output_vertex_data_size (snd (v3d_nir_setup_vpm_layout_gs c zero_state))) < 256
    \<longrightarrow> v3d_nir_lower_io c = Inl Assertion_failed)"
proof -
  have a: "(reset_gs_header state = Inl Assertion_failed)
     = (gs_output_vertex_data_size state AND 0xffffff00 \<noteq> 0)"
    by (simp add: reset_gs_header_assert and_ffffff00_eq_0_iff)
  have b: "v3d_nir_lower_io c = Inl Assertion_failed"
    if g: "info_stage (s c) = MESA_SHADER_GEOMETRY" and i: "impls (s c) \<noteq> []"
      and v: "\<not> unat (gs_output_vertex_data_size
                        (snd (v3d_nir_setup_vpm_layout_gs c zero_state))) < 256"
  proof -
    obtain c' state where l: "v3d_nir_setup_vpm_layout_gs c zero_state = (c', state)"
      by (cases "v3d_nir_setup_vpm_layout_gs c zero_state")
    obtain impl rest where ir: "impls (s c') = impl # rest"
      using i layout_gs_keeps(5)[of c zero_state] l by (cases "impls (s c')") auto
    have st: "info_stage (s c') = MESA_SHADER_GEOMETRY"
      using g layout_gs_keeps(4)[of c zero_state] l by simp
    have "emit_gs_prolog c' state = Inl Assertion_failed"
      using layout_gs_keeps(1-3)[of c zero_state] l v
      by (intro emit_gs_prolog_assert) (simp_all add: zero_state_def)
    then have "lower_impl c' impl state = Inl Assertion_failed"
      by (simp add: lower_impl_def st bind_err_def)
    then show ?thesis
      by (simp add: v3d_nir_lower_io_def g l ir bind_err_def)
  qed
  show ?thesis using a b reset_gs_header_assert by blast
qed

text \<open>A size of 5 passes, a size of 256 aborts, and 252 used outputs abort the pass.\<close>

theorem C9_vertex_data_size_assert_witness:
  "reset_gs_header
     (zero_state\<lparr>gs_output_vertex_data_size := 5, gs_header_var := Some Var_header\<rparr>)
     \<noteq> Inl Assertion_failed \<and>
   reset_gs_header
     (zero_state\<lparr>gs_output_vertex_data_size := 256, gs_header_var := Some Var_header\<rparr>)
     = Inl Assertion_failed \<and>
   v3d_nir_lower_io
     ((example_compile MESA_SHADER_GEOMETRY V3D_ENVIRONMENT_OPENGL [])
        \<lparr>gs_key := example_key\<lparr>used_outputs := replicate 252 (32, 0)\<rparr>\<rparr>)
     = Inl Assertion_failed"
proof -
  let ?c = "(example_compile MESA_SHADER_GEOMETRY V3D_ENVIRONMENT_OPENGL [])
        \<lparr>gs_key := example_key\<lparr>used_outputs := replicate 252 (32, 0)\<rparr>\<rparr>"
  have a: "info_stage (s ?c) = MESA_SHADER_GEOMETRY \<and> impls (s ?c) \<noteq> []"
    by (simp add: example_compile_def example_shader_def)
  have v: "gs_output_vertex_data_size (snd (v3d_nir_setup_vpm_layout_gs ?c zero_state)) = 256"
    by (simp add: v3d_nir_setup_vpm_layout_gs_def Let_def example_compile_def example_key_def
        num_used_outputs_def zero_state_def)
  show ?thesis
    using C9_vertex_data_size_assert
        [of "zero_state\<lparr>gs_output_vertex_data_size := 5, gs_header_var := Some Var_header\<rparr>" ?c]
      C9_vertex_data_size_assert
        [of "zero_state\<lparr>gs_output_vertex_data_size := 256, gs_header_var := Some Var_header\<rparr>" ?c]
      a v
    by simp
qed

subsection \<open>Stores to varyings\<close>

text \<open>
  The prologue of a geometry shader creates the three variables, and the walk over the
  instructions keeps them: every instruction of a geometry shader is lowered in a state
  that has them.
\<close>

lemma emit_gs_prolog_vars:
  "emit_gs_prolog c state = Inr (state', out) \<Longrightarrow> gs_vars_created state'"
  by (auto simp: emit_gs_prolog_def Let_def bind_err_def gs_vars_created_def
      split: if_splits sum.splits)

lemma for_loop_keeps:
  assumes "\<And>i st st' out. body i st = Inr (st', out) \<Longrightarrow> P st \<Longrightarrow> P st'"
  shows "for_loop xs body st = Inr (st', out) \<Longrightarrow> P st \<Longrightarrow> P st'"
proof (induction xs arbitrary: st out)
  case Nil
  then show ?case by simp
next
  case (Cons i xs)
  from Cons.prems(1) obtain st1 out1 st2 out2 where
    1: "body i st = Inr (st1, out1)" and 2: "for_loop xs body st1 = Inr (st2, out2)"
    and 3: "st' = st2"
    by (auto split: sum.splits)
  show ?case
    using Cons.IH [OF 2 [unfolded 3 [symmetric]] assms [OF 1 Cons.prems(2)]] .
qed

lemma lower_vpm_output_component_vars:
  "lower_vpm_output_component c intr reg i st = Inr (st', out) \<Longrightarrow>
   gs_vars_created st \<Longrightarrow> gs_vars_created st'"
  by (auto simp: lower_vpm_output_component_def bind_err_def Let_def gs_vars_created_def
      split: sum.splits if_splits)

lemma lower_vpm_output_vars:
  assumes "v3d_nir_lower_vpm_output c intr state = Inr (state', out)"
    and "gs_vars_created state"
  shows "gs_vars_created state'"
proof -
  let ?state1 = "(if io_location intr = VARYING_SLOT_POS
              then state\<lparr>pos :=
                     fold (\<lambda>i p. p(nir_intrinsic_component intr + i
                                      \<mapsto> nir_channel (src0 intr) (num_components intr) i))
                       [0..<num_components intr] (pos state)\<rparr>
              else state)"
  have 1: "gs_vars_created ?state1"
    using assms(2) by (simp add: gs_vars_created_def)
  from assms(1) obtain reg out' where
    "for_loop [0..<num_components intr] (lower_vpm_output_component c intr reg) ?state1
       = Inr (state', out')"
    by (auto simp: v3d_nir_lower_vpm_output_def bind_err_def Let_def
        split: sum.splits if_splits)
  then show ?thesis
    using 1 for_loop_keeps [of "lower_vpm_output_component c intr reg" gs_vars_created]
      lower_vpm_output_component_vars by blast
qed

lemma emit_ff_vars:
  "v3d_nir_emit_ff_vpm_outputs c state = Inr (state', out) \<Longrightarrow>
   gs_vars_created state \<Longrightarrow> gs_vars_created state'"
  by (auto simp: v3d_nir_emit_ff_vpm_outputs_def bind_err_def Let_def gs_vars_created_def
      split: sum.splits gl_shader_stage.splits)

lemma lower_io_instr_vars:
  assumes "v3d_nir_lower_io_instr c instr state = Inr (state', out, rw)"
    and "gs_vars_created state"
  shows "gs_vars_created state'"
proof (cases instr)
  case (Other_instr d srcs)
  then show ?thesis using assms by (simp add: v3d_nir_lower_io_instr_def)
next
  case (Intrinsic intr)
  show ?thesis
  proof (cases "intrinsic intr")
    case nir_intrinsic_store_output
    then show ?thesis
      using assms Intrinsic lower_vpm_output_vars [of c intr state]
      by (auto simp: v3d_nir_lower_io_instr_def bind_err_def split: if_splits sum.splits)
  next
    case nir_intrinsic_emit_vertex
    then show ?thesis
      using assms Intrinsic emit_ff_vars [of c state]
      by (auto simp: v3d_nir_lower_io_instr_def v3d_nir_lower_emit_vertex_def bind_err_def
          Let_def split: if_splits sum.splits option.splits)
  qed (use assms Intrinsic in
       \<open>auto simp: v3d_nir_lower_io_instr_def bind_err_def split: if_splits sum.splits\<close>)
qed

lemma lower_instrs_vars:
  "lower_instrs c instrs state = Inr (state', out) \<Longrightarrow> gs_vars_created state \<Longrightarrow>
   gs_vars_created state'"
proof (induction c instrs state arbitrary: out rule: lower_instrs.induct)
  case (1 c state)
  then show ?case by simp
next
  case (2 c instr rest state)
  from "2.prems"(1) obtain state1 out1 rw out2 where
    a: "v3d_nir_lower_io_instr c instr state = Inr (state1, out1, rw)"
    and b: "lower_instrs c (nir_ssa_def_rewrite_uses_after rw rest) state1 = Inr (state', out2)"
    by (auto split: sum.splits)
  show ?case
    using "2.IH" [OF a refl refl b] lower_io_instr_vars [OF a "2.prems"(2)] by simp
qed


lemma ex_varyings_stored: "\<exists>S. state = state\<lparr>varyings_stored := S\<rparr>"
  by (rule exI [of _ "varyings_stored state"]) simp

lemma used_outputs_scan_eq:
  "used_outputs_scan T loc cmp i =
     (if (loc, cmp) \<in> set T then i + int (first_index T (loc, cmp)) else -1)"
  by (induction T arbitrary: i)
     (auto simp: first_index_def v3d_slot_get_slot_def v3d_slot_get_component_def)

lemma v3d_varying_slot_vpm_offset_eq:
  assumes "info_stage (s c) = MESA_SHADER_VERTEX \<or> info_stage (s c) = MESA_SHADER_GEOMETRY"
  shows "v3d_varying_slot_vpm_offset c loc cmp =
     Inr (if (loc, cmp) \<in> set (stage_used_outputs c)
          then int (first_index (stage_used_outputs c) (loc, cmp)) else -1)"
  using assms
  by (auto simp: v3d_varying_slot_vpm_offset_def stage_used_outputs_def used_outputs_scan_eq)

lemma lower_vpm_output_component_eq:
  assumes "info_stage (s c) = MESA_SHADER_VERTEX \<or> info_stage (s c) = MESA_SHADER_GEOMETRY"
  shows "\<exists>S. lower_vpm_output_component c intr (stage_offset_reg c) i state =
     Inr (state\<lparr>varyings_stored := S\<rparr>, component_writes c intr (varyings_vpm_offset state) i)"
  unfolding lower_vpm_output_component_def v3d_varying_slot_vpm_offset_eq [OF assms]
    component_writes_def offset_index_def bind_err_def Let_def
  by (auto simp: algebra_simps ex_varyings_stored)

lemma for_loop_components:
  assumes "info_stage (s c) = MESA_SHADER_VERTEX \<or> info_stage (s c) = MESA_SHADER_GEOMETRY"
  shows "\<exists>S. for_loop xs (lower_vpm_output_component c intr (stage_offset_reg c)) state =
     Inr (state\<lparr>varyings_stored := S\<rparr>,
          concat (map (component_writes c intr (varyings_vpm_offset state)) xs))"
proof (induction xs arbitrary: state)
  case Nil
  have "state = state\<lparr>varyings_stored := varyings_stored state\<rparr>" by simp
  then show ?case by (metis for_loop.simps(1) concat.simps(1) list.map(1))
next
  case (Cons i xs)
  obtain S1 where 1: "lower_vpm_output_component c intr (stage_offset_reg c) i state =
     Inr (state\<lparr>varyings_stored := S1\<rparr>, component_writes c intr (varyings_vpm_offset state) i)"
    using lower_vpm_output_component_eq [OF assms] by blast
  obtain S2 where 2: "for_loop xs (lower_vpm_output_component c intr (stage_offset_reg c))
       (state\<lparr>varyings_stored := S1\<rparr>) =
     Inr (state\<lparr>varyings_stored := S1\<rparr>\<lparr>varyings_stored := S2\<rparr>,
          concat (map (component_writes c intr
                         (varyings_vpm_offset (state\<lparr>varyings_stored := S1\<rparr>))) xs))"
    using Cons.IH by blast
  show ?case
    by (rule exI [of _ S2]) (simp add: 1 2)
qed

lemma load_offset_reg_eq:
  "store_lowerable c intr state \<Longrightarrow> load_offset_reg c state = Inr (stage_offset_reg c)"
  by (auto simp: store_lowerable_def load_offset_reg_def stage_offset_reg_def gs_vars_created_def)

lemma lower_vpm_output_eq:
  assumes "store_lowerable c intr state"
  shows "\<exists>S. v3d_nir_lower_vpm_output c intr state =
     Inr (state\<lparr>pos := (if io_location intr = VARYING_SLOT_POS
                         then fold (\<lambda>i p. p(nir_intrinsic_component intr + i
                                              \<mapsto> nir_channel (src0 intr) (num_components intr) i))
                                [0..<num_components intr] (pos state)
                         else pos state),
                 varyings_stored := S\<rparr>,
          psiz_write c intr state @ layer_header_store intr @
          concat (map (component_writes c intr (varyings_vpm_offset state))
                    [0..<num_components intr]))"
proof -
  have st: "info_stage (s c) = MESA_SHADER_VERTEX \<or> info_stage (s c) = MESA_SHADER_GEOMETRY"
    using assms by (auto simp: store_lowerable_def)
  let ?state1 = "(if io_location intr = VARYING_SLOT_POS
              then state\<lparr>pos :=
                     fold (\<lambda>i p. p(nir_intrinsic_component intr + i
                                      \<mapsto> nir_channel (src0 intr) (num_components intr) i))
                       [0..<num_components intr] (pos state)\<rparr>
              else state)"
  have l: "(if io_location intr = VARYING_SLOT_LAYER then lower_layer c ?state1 (src0 intr)
            else Inr []) = Inr (layer_header_store intr)"
    using assms
    by (auto simp: store_lowerable_def lower_layer_def layer_header_store_def
        gs_vars_created_def Let_def)
  obtain S where f: "for_loop [0..<num_components intr]
        (lower_vpm_output_component c intr (stage_offset_reg c)) ?state1 =
     Inr (?state1\<lparr>varyings_stored := S\<rparr>,
          concat (map (component_writes c intr (varyings_vpm_offset ?state1))
                    [0..<num_components intr]))"
    using for_loop_components [OF st] by blast
  have v: "varyings_vpm_offset ?state1 = varyings_vpm_offset state"
    and p: "psiz_vpm_offset ?state1 = psiz_vpm_offset state" by simp_all
  show ?thesis
    apply (rule exI [of _ S])
    unfolding v3d_nir_lower_vpm_output_def load_offset_reg_eq [OF assms] bind_err_def Let_def
    apply (simp only: sum.case l f v p)
    apply (simp add: psiz_write_def)
    done
qed





lemma upt_4: "[0..<4] = [0, 1, 2, 3]" and upt_2: "[0..<2] = [0, 1]"
  by (simp_all add: upt_rec)

lemma example_gs_state_eq:
  "example_gs_state =
     zero_state\<lparr>pos_vpm_offset := -1, vp_vpm_offset := 0, zs_vpm_offset := 2,
                rcp_wc_vpm_offset := 3, varyings_vpm_offset := 4,
                gs_output_offset_var := Some Var_output_offset,
                gs_header_offset_var := Some Var_header_offset,
                gs_header_var := Some Var_header,
                gs_output_header_size := 4, gs_output_vertex_data_size := 5\<rparr>"
  by (simp add: example_gs_state_def v3d_nir_setup_vpm_layout_gs_def Let_def
      example_gs_compile_def example_compile_def example_shader_def example_key_def
      zero_state_def num_used_outputs_def)

lemma example_gs_facts:
  "info_stage (s example_gs_compile) = MESA_SHADER_GEOMETRY"
  "gs_vars_created example_gs_state"
  "gs_output_vertex_data_size example_gs_state = 5"
  "stage_used_outputs example_gs_compile = [(32, 0)]"
  "stage_offset_reg example_gs_compile = Some (nir_load_var Var_output_offset)"
  by (simp_all add: example_gs_state_eq gs_vars_created_def example_gs_compile_def
      example_compile_def example_shader_def stage_used_outputs_def stage_offset_reg_def
      example_key_def)





lemma example_vs_state_eq:
  "example_vs_state =
     zero_state\<lparr>pos_vpm_offset := -1, vp_vpm_offset := 0, zs_vpm_offset := 2,
                rcp_wc_vpm_offset := 3, psiz_vpm_offset := -1, varyings_vpm_offset := 4\<rparr>"
  by (simp add: example_vs_state_def v3d_nir_setup_vpm_layout_vs_def Let_def
      example_compile_def example_key_def zero_state_def)


lemma example_vs_facts:
  "info_stage (s (example_compile MESA_SHADER_VERTEX V3D_ENVIRONMENT_OPENGL []))
     = MESA_SHADER_VERTEX"
  "stage_used_outputs (example_compile MESA_SHADER_VERTEX V3D_ENVIRONMENT_OPENGL [])
     = [(32, 0), (32, 1)]"
  "stage_offset_reg (example_compile MESA_SHADER_VERTEX V3D_ENVIRONMENT_OPENGL []) = None"
  by (simp_all add: example_compile_def example_shader_def stage_used_outputs_def
      stage_offset_reg_def example_key_def)






text \<open>
  The point-size offset the two layouts leave in the state.
\<close>

lemma layout_psiz_slot:
  "psiz_vpm_offset (snd (v3d_nir_setup_vpm_layout_vs c state)) =
     (if is_last_geometry_stage (vs_key c) \<and> per_vertex_point_size (vs_key c)
      then (if is_coord (vs_key c) then 6 else 4) else -1)"
  "psiz_vpm_offset (snd (v3d_nir_setup_vpm_layout_gs c state)) =
     (if per_vertex_point_size (gs_key c) then (if is_coord (gs_key c) then 6 else 4)
      else psiz_vpm_offset state)"
  by (simp_all add: v3d_nir_setup_vpm_layout_vs_def v3d_nir_setup_vpm_layout_gs_def Let_def)




subsection \<open>The zero fill of the fixed-function emitter\<close>

lemma store_target_v3d [simp]:
  "store_target (v3d_nir_store_output base reg v) = Some (reg, base)"
  by (simp add: store_target_def v3d_nir_store_output_def split: option.splits)

lemma writes_to_slot_simps [simp]:
  "writes_to_slot c slot [] = []"
  "writes_to_slot c slot (xs @ ys) = writes_to_slot c slot xs @ writes_to_slot c slot ys"
  "writes_to_slot c slot (v3d_nir_store_output base reg v # xs) =
     (if reg = stage_offset_reg c \<and> base = slot
      then v3d_nir_store_output base reg v # writes_to_slot c slot xs
      else writes_to_slot c slot xs)"
  by (auto simp: writes_to_slot_def)

lemma writes_to_slot_zero_fill:
  "writes_to_slot c (vb + int i)
     (concat (map (\<lambda>j. if int j \<notin> S
                        then [v3d_nir_store_output (vb + int j) (stage_offset_reg c) x]
                        else []) [0..<n])) =
   (if i < n \<and> int i \<notin> S
    then [v3d_nir_store_output (vb + int i) (stage_offset_reg c) x] else [])"
  by (induction n) auto

lemma ff_load_offset_reg:
  "ff_emittable c state \<Longrightarrow> load_offset_reg c state = Inr (stage_offset_reg c)"
  by (auto simp: ff_emittable_def load_offset_reg_def stage_offset_reg_def gs_vars_created_def)

lemma emit_ff_eq:
  assumes "ff_emittable c state"
  shows "v3d_nir_emit_ff_vpm_outputs c state =
     Inr (pos_filled state, ff_fixed_writes c state @ zero_fill_writes c state)"
proof -
  have st: "info_stage (s c) = MESA_SHADER_VERTEX \<or> info_stage (s c) = MESA_SHADER_GEOMETRY"
    using assms(1) by (auto simp: ff_emittable_def)
  from st show ?thesis
  proof
    assume v: "info_stage (s c) = MESA_SHADER_VERTEX"
    show ?thesis
      unfolding v3d_nir_emit_ff_vpm_outputs_def ff_load_offset_reg [OF assms(1)] bind_err_def
      by (simp add: Let_def v upt_4 upt_2 pos_or_undef_def ff_fixed_writes_def zero_fill_writes_def
          zero_fill_write_def pos_filled_def stage_used_outputs_def num_used_outputs_def
          split: option.splits cong: if_cong)
  next
    assume g: "info_stage (s c) = MESA_SHADER_GEOMETRY"
    show ?thesis
      unfolding v3d_nir_emit_ff_vpm_outputs_def ff_load_offset_reg [OF assms(1)] bind_err_def
      by (simp add: Let_def g upt_4 upt_2 pos_or_undef_def ff_fixed_writes_def zero_fill_writes_def
          zero_fill_write_def pos_filled_def stage_used_outputs_def num_used_outputs_def
          split: option.splits cong: if_cong)
  qed
qed

lemma writes_to_slot_fixed:
  assumes "ff_slots_below_varyings state"
  shows "writes_to_slot c (varyings_vpm_offset state + int i) (ff_fixed_writes c state) = []"
proof -
  have p: "pos_vpm_offset state + k \<noteq> varyings_vpm_offset state + int i"
    if "pos_vpm_offset state \<noteq> -1" "k \<le> 3" for k
    using assms that by (simp add: ff_slots_below_varyings_def)
  have v: "vp_vpm_offset state + k \<noteq> varyings_vpm_offset state + int i"
    if "vp_vpm_offset state \<noteq> -1" "k \<le> 1" for k
    using assms that by (simp add: ff_slots_below_varyings_def)
  have z: "zs_vpm_offset state \<noteq> varyings_vpm_offset state + int i"
    if "zs_vpm_offset state \<noteq> -1"
    using assms that by (simp add: ff_slots_below_varyings_def)
  have r: "rcp_wc_vpm_offset state \<noteq> varyings_vpm_offset state + int i"
    if "rcp_wc_vpm_offset state \<noteq> -1"
    using assms that by (simp add: ff_slots_below_varyings_def)
  have p0: "pos_vpm_offset state \<noteq> varyings_vpm_offset state + int i"
    if "pos_vpm_offset state \<noteq> -1"
    using p [OF that, of 0] by simp
  have v0: "vp_vpm_offset state \<noteq> varyings_vpm_offset state + int i"
    if "vp_vpm_offset state \<noteq> -1"
    using v [OF that, of 0] by simp
  show ?thesis
    unfolding ff_fixed_writes_def
    by (simp add: p p0 v v0 z r)
qed

lemma writes_to_slot_store_var [simp]:
  "writes_to_slot c slot (nir_store_var var x # xs) = writes_to_slot c slot xs"
  by (simp add: writes_to_slot_def store_target_def)

lemma writes_to_slot_zero_fill_writes:
  "writes_to_slot c (varyings_vpm_offset state + int i) (zero_fill_writes c state) =
     (if i < length (stage_used_outputs c) \<and> int i \<notin> varyings_stored state
      then [zero_fill_write c state i] else [])"
  unfolding zero_fill_writes_def zero_fill_write_def
  by (rule writes_to_slot_zero_fill)

lemma emit_vertex_eq:
  assumes "info_stage (s c) = MESA_SHADER_GEOMETRY" "gs_vars_created state"
  shows "v3d_nir_lower_emit_vertex c state =
     Inr (pos_filled state,
          (ff_fixed_writes c state @ zero_fill_writes c state) @
          [v3d_nir_store_output 0 (Some (nir_load_var Var_header_offset))
             (nir_load_var Var_header),
           nir_store_var Var_output_offset
             (nir_iadd_imm (nir_load_var Var_output_offset)
                (uint (gs_output_vertex_data_size state))),
           nir_store_var Var_header_offset (nir_iadd_imm (nir_load_var Var_header_offset) 1),
           nir_store_var Var_header (nir_iand_imm (nir_load_var Var_header) 0xfffffffe)])"
proof -
  have e: "ff_emittable c state" using assms by (simp add: ff_emittable_def)
  show ?thesis
    using assms(2)
    unfolding v3d_nir_lower_emit_vertex_def emit_ff_eq [OF e] bind_err_def
    by (simp add: gs_vars_created_def Let_def pos_filled_def)
qed

lemma layout_vs_ff_slots:
  "ff_slots_below_varyings (snd (v3d_nir_setup_vpm_layout_vs c state))"
  by (simp add: v3d_nir_setup_vpm_layout_vs_def ff_slots_below_varyings_def Let_def split_def)

lemma layout_gs_ff_slots:
  "ff_slots_below_varyings (snd (v3d_nir_setup_vpm_layout_gs c state))"
  by (simp add: v3d_nir_setup_vpm_layout_gs_def ff_slots_below_varyings_def Let_def split_def)

text \<open>
  C8: each time the fixed-function emitter runs, every varying slot index \<open>i\<close> below
  the number of used outputs that is not marked stored receives exactly one write, of
  the value 0, at slot \<open>varyings_base + i\<close> of the current vertex, and a slot index
  marked stored receives none. In a geometry shader this is the code at the start of each
  lowered emit-vertex, whose remaining instructions write no varying slot; in a vertex
  shader it is the code appended after the lowered body.
\<close>

theorem C8_zero_fill:
  assumes "ff_emittable c state" and "ff_slots_below_varyings state"
    and "i < length (stage_used_outputs c)"
  shows "\<exists>state' out. v3d_nir_emit_ff_vpm_outputs c state = Inr (state', out) \<and>
     writes_to_slot c (varyings_vpm_offset state + int i) out =
       (if int i \<in> varyings_stored state then [] else [zero_fill_write c state i]) \<and>
     (info_stage (s c) = MESA_SHADER_GEOMETRY \<longrightarrow>
        (\<exists>tail. v3d_nir_lower_emit_vertex c state = Inr (state', out @ tail) \<and>
                writes_to_slot c (varyings_vpm_offset state + int i) tail = [])) \<and>
     (info_stage (s c) = MESA_SHADER_VERTEX \<longrightarrow>
        (\<forall>impl state0 body. lower_instrs c impl state0 = Inr (state, body) \<longrightarrow>
            lower_impl c impl state0 = Inr (state', body @ out)))"
proof -
  have 1: "v3d_nir_emit_ff_vpm_outputs c state =
     Inr (pos_filled state, ff_fixed_writes c state @ zero_fill_writes c state)"
    by (rule emit_ff_eq [OF assms(1)])
  have 2: "writes_to_slot c (varyings_vpm_offset state + int i)
             (ff_fixed_writes c state @ zero_fill_writes c state) =
       (if int i \<in> varyings_stored state then [] else [zero_fill_write c state i])"
    using assms(3) by (simp add: writes_to_slot_fixed [OF assms(2)] writes_to_slot_zero_fill_writes)
  have 3: "\<exists>tail. v3d_nir_lower_emit_vertex c state =
             Inr (pos_filled state, (ff_fixed_writes c state @ zero_fill_writes c state) @ tail) \<and>
                writes_to_slot c (varyings_vpm_offset state + int i) tail = []"
    if g: "info_stage (s c) = MESA_SHADER_GEOMETRY"
  proof -
    have v: "gs_vars_created state" using assms(1) g by (simp add: ff_emittable_def)
    have r: "Some (nir_load_var Var_header_offset) \<noteq> stage_offset_reg c"
      by (simp add: stage_offset_reg_def g)
    show ?thesis
      unfolding emit_vertex_eq [OF g v]
      by (intro exI conjI, rule refl) (simp add: r)
  qed
  have 4: "lower_impl c impl state0 =
             Inr (pos_filled state, body @ ff_fixed_writes c state @ zero_fill_writes c state)"
    if "info_stage (s c) = MESA_SHADER_VERTEX" "lower_instrs c impl state0 = Inr (state, body)"
    for impl state0 body
    using that by (simp add: lower_impl_def bind_err_def 1)
  show ?thesis
    unfolding 1 using 2 3 4 by simp
qed

text \<open>
  A vertex shader with two used outputs of which the first is stored, and a geometry
  shader with one used output that is not stored.
\<close>

theorem C8_zero_fill_witness:
  "v3d_nir_emit_ff_vpm_outputs (example_compile MESA_SHADER_VERTEX V3D_ENVIRONMENT_OPENGL [])
      (example_vs_state\<lparr>varyings_stored := {0}\<rparr>)
     = Inr (pos_filled (example_vs_state\<lparr>varyings_stored := {0}\<rparr>),
            [nir_store_output
               (nir_f2i32 (nir_ffloor (nir_fmul (nir_fmul nir_ssa_undef nir_load_viewport_x_scale)
                                         (nir_frcp nir_ssa_undef))))
               (nir_imm_int 0) 0,
             nir_store_output
               (nir_f2i32 (nir_ffloor (nir_fmul (nir_fmul nir_ssa_undef nir_load_viewport_y_scale)
                                         (nir_frcp nir_ssa_undef))))
               (nir_imm_int 0) 1,
             nir_store_output
               (nir_fadd (nir_fmul (nir_fmul nir_ssa_undef nir_load_viewport_z_scale)
                            (nir_frcp nir_ssa_undef)) nir_load_viewport_z_offset)
               (nir_imm_int 0) 2,
             nir_store_output (nir_frcp nir_ssa_undef) (nir_imm_int 0) 3,
             nir_store_output (nir_imm_int 0) (nir_imm_int 0) 5]) \<and>
   writes_to_slot (example_compile MESA_SHADER_VERTEX V3D_ENVIRONMENT_OPENGL []) (4 + int 0)
     (snd (projr (v3d_nir_emit_ff_vpm_outputs
                    (example_compile MESA_SHADER_VERTEX V3D_ENVIRONMENT_OPENGL [])
                    (example_vs_state\<lparr>varyings_stored := {0}\<rparr>)))) = [] \<and>
   writes_to_slot (example_compile MESA_SHADER_VERTEX V3D_ENVIRONMENT_OPENGL []) (4 + int 1)
     (snd (projr (v3d_nir_emit_ff_vpm_outputs
                    (example_compile MESA_SHADER_VERTEX V3D_ENVIRONMENT_OPENGL [])
                    (example_vs_state\<lparr>varyings_stored := {0}\<rparr>))))
     = [nir_store_output (nir_imm_int 0) (nir_imm_int 0) 5] \<and>
   writes_to_slot example_gs_compile (4 + int 0)
     (snd (projr (v3d_nir_lower_emit_vertex example_gs_compile example_gs_state)))
     = [nir_store_output (nir_imm_int 0) (nir_iadd_imm (nir_load_var Var_output_offset) 4) 0]"
proof -
  let ?c = "example_compile MESA_SHADER_VERTEX V3D_ENVIRONMENT_OPENGL []"
  let ?st = "example_vs_state\<lparr>varyings_stored := {0}\<rparr>"
  have e: "ff_emittable ?c ?st"
    by (simp add: ff_emittable_def example_vs_facts)
  have f: "ff_slots_below_varyings ?st"
    using layout_vs_ff_slots [of ?c zero_state]
    by (simp add: ff_slots_below_varyings_def example_vs_state_def)
  have n: "0 < length (stage_used_outputs ?c)" "1 < length (stage_used_outputs ?c)"
    by (simp_all add: example_vs_facts)
  have ev: "v3d_nir_emit_ff_vpm_outputs ?c ?st
     = Inr (pos_filled ?st,
            [nir_store_output
               (nir_f2i32 (nir_ffloor (nir_fmul (nir_fmul nir_ssa_undef nir_load_viewport_x_scale)
                                         (nir_frcp nir_ssa_undef))))
               (nir_imm_int 0) 0,
             nir_store_output
               (nir_f2i32 (nir_ffloor (nir_fmul (nir_fmul nir_ssa_undef nir_load_viewport_y_scale)
                                         (nir_frcp nir_ssa_undef))))
               (nir_imm_int 0) 1,
             nir_store_output
               (nir_fadd (nir_fmul (nir_fmul nir_ssa_undef nir_load_viewport_z_scale)
                            (nir_frcp nir_ssa_undef)) nir_load_viewport_z_offset)
               (nir_imm_int 0) 2,
             nir_store_output (nir_frcp nir_ssa_undef) (nir_imm_int 0) 3,
             nir_store_output (nir_imm_int 0) (nir_imm_int 0) 5])"
    unfolding emit_ff_eq [OF e]
    by (simp add: ff_fixed_writes_def zero_fill_writes_def zero_fill_write_def
        example_vs_state_eq example_vs_facts pos_or_undef_def zero_state_def
        v3d_nir_store_output_def upt_2)
  have k: "varyings_vpm_offset ?st = 4" "varyings_stored ?st = {0}"
    by (simp_all add: example_vs_state_eq)
  have ge: "ff_emittable example_gs_compile example_gs_state"
    by (simp add: ff_emittable_def example_gs_facts)
  have gf: "ff_slots_below_varyings example_gs_state"
    by (simp add: ff_slots_below_varyings_def example_gs_state_eq)
  have gn: "0 < length (stage_used_outputs example_gs_compile)"
    by (simp add: example_gs_facts)
  have gk: "varyings_vpm_offset example_gs_state = 4" "varyings_stored example_gs_state = {}"
    by (simp_all add: example_gs_state_eq zero_state_def)
  have g: "writes_to_slot example_gs_compile (4 + int 0)
     (snd (projr (v3d_nir_lower_emit_vertex example_gs_compile example_gs_state)))
     = [nir_store_output (nir_imm_int 0) (nir_iadd_imm (nir_load_var Var_output_offset) 4) 0]"
    using C8_zero_fill [OF ge gf gn]
    by (auto simp: gk example_gs_facts zero_fill_write_def v3d_nir_store_output_def)
  have v: "writes_to_slot ?c (4 + int 0) (snd (projr (v3d_nir_emit_ff_vpm_outputs ?c ?st))) = []
     \<and> writes_to_slot ?c (4 + int 1) (snd (projr (v3d_nir_emit_ff_vpm_outputs ?c ?st)))
     = [nir_store_output (nir_imm_int 0) (nir_imm_int 0) 5]"
    using C8_zero_fill [OF e f n(1)] C8_zero_fill [OF e f n(2)]
    by (simp add: ev k zero_fill_write_def example_vs_facts v3d_nir_store_output_def)
  show ?thesis
    using ev g v by simp
qed

subsection \<open>The geometry header\<close>

lemma exec_instrs_append [simp]:
  "exec_instrs env (xs @ ys) rt = exec_instrs env ys (exec_instrs env xs rt)"
  by (induction xs arbitrary: rt) auto

lemma exec_writes_var_value:
  "(\<And>w. w \<in> set xs \<Longrightarrow> \<exists>chan off base. w = nir_store_output chan off base) \<Longrightarrow>
   var_value (exec_instrs env xs rt) = var_value rt"
proof (induction xs arbitrary: rt)
  case Nil
  then show ?case by simp
next
  case (Cons w xs)
  obtain chan off base where w: "w = nir_store_output chan off base"
    using Cons.prems [of w] by auto
  have "var_value (exec_instrs env xs (exec_instr env w rt)) = var_value (exec_instr env w rt)"
    using Cons.prems by (intro Cons.IH) auto
  then show ?case by (simp add: w)
qed

lemma v3d_nir_store_output_is_write:
  "\<exists>chan off b. v3d_nir_store_output base reg v = nir_store_output chan off b"
  by (cases reg) (simp_all add: v3d_nir_store_output_def)

lemma ff_writes_are_writes:
  "w \<in> set (ff_fixed_writes c state @ zero_fill_writes c state) \<Longrightarrow>
   \<exists>chan off base. w = nir_store_output chan off base"
  using v3d_nir_store_output_is_write
  by (auto simp: ff_fixed_writes_def zero_fill_writes_def zero_fill_write_def split: if_splits)

lemma exec_ff_var_value:
  "var_value (exec_instrs env (ff_fixed_writes c state @ zero_fill_writes c state) rt)
     = var_value rt"
  by (rule exec_writes_var_value) (rule ff_writes_are_writes)

lemma bit_and_fffffffe:
  fixes h :: "32 word"
  shows "bit (h AND 0xfffffffe) n = (bit h n \<and> n \<noteq> 0)"
proof -
  have c: "(0xfffffffe :: 32 word) = NOT 1" by simp
  show ?thesis
    unfolding c by (auto simp: bit_and_iff bit_not_iff bit_1_iff dest: bit_imp_le_length)
qed

lemma and_fffffffe_bits:
  fixes h :: "32 word"
  shows "\<not> bit (h AND 0xfffffffe) 0"
    and "drop_bit 1 (h AND 0xfffffffe) = drop_bit 1 h"
    and "take_bit 8 (drop_bit 8 (h AND 0xfffffffe)) = take_bit 8 (drop_bit 8 h)"
proof -
  show "\<not> bit (h AND 0xfffffffe) 0" by (simp only: bit_and_fffffffe) simp
  show "drop_bit 1 (h AND 0xfffffffe) = drop_bit 1 h"
    by (rule bit_eqI) (simp only: bit_drop_bit_eq comp_def bit_and_fffffffe, simp)
  show "take_bit 8 (drop_bit 8 (h AND 0xfffffffe)) = take_bit 8 (drop_bit 8 h)"
    by (rule bit_eqI)
       (simp only: bit_take_bit_iff bit_drop_bit_eq comp_def bit_and_fffffffe, simp)
qed

lemma reset_header_bits:
  fixes v :: "32 word"
  assumes "unat v < 256"
  shows "bit (push_bit 0 1 OR push_bit 8 v) 0"
    and "take_bit 8 (drop_bit 8 (push_bit 0 1 OR push_bit 8 v)) = v"
proof -
  show "bit (push_bit 0 1 OR push_bit 8 v) 0" by (simp add: bit_simps)
  have "v < 2 ^ 8" using assms by (simp add: word_less_nat_alt)
  then have v: "take_bit 8 v = v" by (simp add: take_bit_eq_mask less_mask_eq)
  have "take_bit 8 (drop_bit 8 (push_bit 0 1 OR push_bit 8 v)) = take_bit 8 v"
    by (rule bit_eqI)
       (auto simp only: bit_take_bit_iff bit_drop_bit_eq comp_def bit_or_iff bit_push_bit_iff
          bit_1_iff possible_bit_word, auto dest: bit_imp_le_length)
  then show "take_bit 8 (drop_bit 8 (push_bit 0 1 OR push_bit 8 v)) = v"
    by (simp add: v)
qed

lemma reset_gs_header_eq:
  assumes "gs_vars_created state" "unat (gs_output_vertex_data_size state) < 256"
  shows "reset_gs_header state =
     Inr [nir_store_var Var_header
            (nir_imm_int (push_bit 0 1 OR push_bit 8 (gs_output_vertex_data_size state)))]"
  using assms
  by (simp add: reset_gs_header_def Let_def gs_vars_created_def and_ffffff00_eq_0_iff)

text \<open>
  C3: in a geometry shader, the header reset (with a vertex data size below 256) stores
  a header whose bit 0 is 1 and whose bits 15 to 8 are the vertex data size. A lowered
  emit-vertex writes the current header to the VPM address \<open>header_offset\<close> last of
  all its writes, adds the vertex data size to \<open>output_offset\<close>, adds 1 to
  \<open>header_offset\<close>, and clears bit 0 of the header, leaving every other bit, bits 15
  to 8 among them, as it was.
\<close>

theorem C3_gs_header:
  assumes "info_stage (s c) = MESA_SHADER_GEOMETRY" and "gs_vars_created state"
  shows "(unat (gs_output_vertex_data_size state) < 256 \<longrightarrow>
      (\<exists>out. reset_gs_header state = Inr out \<and>
         bit (var_value (exec_instrs env out rt) Var_header) 0 \<and>
         take_bit 8 (drop_bit 8 (var_value (exec_instrs env out rt) Var_header))
           = gs_output_vertex_data_size state)) \<and>
     (\<exists>state' out. v3d_nir_lower_emit_vertex c state = Inr (state', out) \<and>
        last (vpm_writes (exec_instrs env out rt))
          = (var_value rt Var_header_offset, var_value rt Var_header) \<and>
        var_value (exec_instrs env out rt) Var_output_offset
          = var_value rt Var_output_offset + gs_output_vertex_data_size state \<and>
        var_value (exec_instrs env out rt) Var_header_offset
          = var_value rt Var_header_offset + 1 \<and>
        \<not> bit (var_value (exec_instrs env out rt) Var_header) 0 \<and>
        drop_bit 1 (var_value (exec_instrs env out rt) Var_header)
          = drop_bit 1 (var_value rt Var_header) \<and>
        take_bit 8 (drop_bit 8 (var_value (exec_instrs env out rt) Var_header))
          = take_bit 8 (drop_bit 8 (var_value rt Var_header)))"
proof -
  have r: "\<exists>out. reset_gs_header state = Inr out \<and>
         bit (var_value (exec_instrs env out rt) Var_header) 0 \<and>
         take_bit 8 (drop_bit 8 (var_value (exec_instrs env out rt) Var_header))
           = gs_output_vertex_data_size state"
    if v: "unat (gs_output_vertex_data_size state) < 256"
    unfolding reset_gs_header_eq [OF assms(2) v]
    using reset_header_bits [OF v] by simp
  define rt1 where
    "rt1 = exec_instrs env (ff_fixed_writes c state @ zero_fill_writes c state) rt"
  have v1: "var_value rt1 = var_value rt"
    unfolding rt1_def by (rule exec_ff_var_value)
  let ?tail = "[v3d_nir_store_output 0 (Some (nir_load_var Var_header_offset))
             (nir_load_var Var_header),
           nir_store_var Var_output_offset
             (nir_iadd_imm (nir_load_var Var_output_offset)
                (uint (gs_output_vertex_data_size state))),
           nir_store_var Var_header_offset (nir_iadd_imm (nir_load_var Var_header_offset) 1),
           nir_store_var Var_header (nir_iand_imm (nir_load_var Var_header) 0xfffffffe)]"
  have x: "exec_instrs env ((ff_fixed_writes c state @ zero_fill_writes c state) @ ?tail) rt
             = exec_instrs env ?tail rt1"
    unfolding rt1_def by (simp only: exec_instrs_append)
  have t: "vpm_writes (exec_instrs env ?tail rt1)
             = vpm_writes rt1 @ [(var_value rt Var_header_offset, var_value rt Var_header)]"
      "var_value (exec_instrs env ?tail rt1) Var_output_offset
          = var_value rt Var_output_offset + gs_output_vertex_data_size state"
      "var_value (exec_instrs env ?tail rt1) Var_header_offset
          = var_value rt Var_header_offset + 1"
      "var_value (exec_instrs env ?tail rt1) Var_header
          = var_value rt Var_header AND 0xfffffffe"
    by (simp_all add: v3d_nir_store_output_def v1)
  have e: "\<exists>state' out. v3d_nir_lower_emit_vertex c state = Inr (state', out) \<and>
        last (vpm_writes (exec_instrs env out rt))
          = (var_value rt Var_header_offset, var_value rt Var_header) \<and>
        var_value (exec_instrs env out rt) Var_output_offset
          = var_value rt Var_output_offset + gs_output_vertex_data_size state \<and>
        var_value (exec_instrs env out rt) Var_header_offset
          = var_value rt Var_header_offset + 1 \<and>
        \<not> bit (var_value (exec_instrs env out rt) Var_header) 0 \<and>
        drop_bit 1 (var_value (exec_instrs env out rt) Var_header)
          = drop_bit 1 (var_value rt Var_header) \<and>
        take_bit 8 (drop_bit 8 (var_value (exec_instrs env out rt) Var_header))
          = take_bit 8 (drop_bit 8 (var_value rt Var_header))"
    apply (intro exI conjI)
          apply (rule emit_vertex_eq [OF assms])
         apply (simp only: x t last_snoc)
        apply (simp only: x t)
       apply (simp only: x t)
      apply (simp only: x t and_fffffffe_bits not_False_eq_True)
     apply (simp only: x t and_fffffffe_bits)
    apply (simp only: x t and_fffffffe_bits)
    done
  show ?thesis using r e by blast
qed

text \<open>Vertex data size 5: the header is 0x501 after the reset and 0x500 after one
  emit-vertex, which moves \<open>output_offset\<close> from 4 to 9 and \<open>header_offset\<close> from 1
  to 2.\<close>

theorem C3_gs_header_witness:
  "gs_output_vertex_data_size example_gs_state = 5 \<and>
   bit (var_value (exec_instrs (example_env 0 1) (projr (reset_gs_header example_gs_state))
                     (example_rt 0)) Var_header) 0 \<and>
   take_bit 8 (drop_bit 8
     (var_value (exec_instrs (example_env 0 1) (projr (reset_gs_header example_gs_state))
                     (example_rt 0)) Var_header)) = 5 \<and>
   var_value (exec_instrs (example_env 0 1) (projr (reset_gs_header example_gs_state))
                     (example_rt 0)) Var_header = 0x501 \<and>
   \<not> bit (var_value (exec_instrs (example_env 0 1)
                 (snd (projr (v3d_nir_lower_emit_vertex example_gs_compile example_gs_state)))
                 (example_rt 0x501)) Var_header) 0 \<and>
   take_bit 8 (drop_bit 8
     (var_value (exec_instrs (example_env 0 1)
                 (snd (projr (v3d_nir_lower_emit_vertex example_gs_compile example_gs_state)))
                 (example_rt 0x501)) Var_header)) = 5 \<and>
   var_value (exec_instrs (example_env 0 1)
                 (snd (projr (v3d_nir_lower_emit_vertex example_gs_compile example_gs_state)))
                 (example_rt 0x501)) Var_output_offset = 4 + 5 \<and>
   var_value (exec_instrs (example_env 0 1)
                 (snd (projr (v3d_nir_lower_emit_vertex example_gs_compile example_gs_state)))
                 (example_rt 0x501)) Var_header_offset = 1 + 1 \<and>
   last (vpm_writes (exec_instrs (example_env 0 1)
                 (snd (projr (v3d_nir_lower_emit_vertex example_gs_compile example_gs_state)))
                 (example_rt 0x501))) = (1, 0x501)"
proof -
  have r: "reset_gs_header example_gs_state = Inr [nir_store_var Var_header (nir_imm_int 0x501)]"
    by (simp add: reset_gs_header_def example_gs_state_eq zero_state_def Let_def)
  have v: "var_value (example_rt h) Var_header = h"
    "var_value (example_rt h) Var_header_offset = 1"
    "var_value (example_rt h) Var_output_offset = 4" for h
    by (simp_all add: example_rt_def)
  have b: "take_bit 8 (drop_bit 8 (0x501 :: 32 word)) = 5"
    by simp
  have u: "unat (gs_output_vertex_data_size example_gs_state) < 256"
    by (simp add: example_gs_facts)
  show ?thesis
    using C3_gs_header [OF example_gs_facts(1,2), of "example_env 0 1" "example_rt 0"]
      C3_gs_header [OF example_gs_facts(1,2), of "example_env 0 1" "example_rt 0x501"] u
    by (auto simp: r v b example_gs_facts(3))
qed

subsection \<open>The layer in the geometry header\<close>

lemma bit_ff00ffff:
  "bit (0xff00ffff :: 32 word) n = (n < 32 \<and> \<not> (16 \<le> n \<and> n < 24))"
proof -
  have c: "(0xff00ffff :: 32 word) = NOT (push_bit 16 (mask 8))"
    by (simp add: mask_eq_exp_minus_1)
  show ?thesis
    unfolding c by (auto simp: bit_not_iff bit_push_bit_iff bit_mask_iff)
qed

lemma bit_and_ff00ffff:
  fixes h :: "32 word"
  shows "bit (h AND 0xff00ffff) n = (bit h n \<and> \<not> (16 \<le> n \<and> n < 24))"
proof -
  have "bit h n \<Longrightarrow> n < 32"
    using bit_imp_le_length [of h n] by simp
  then show ?thesis
    by (auto simp only: bit_and_iff bit_ff00ffff)
qed

lemma layer_bits:
  fixes h l :: "32 word"
  shows "take_bit 8 (drop_bit 16 ((h AND 0xff00ffff) OR push_bit 16 l)) = take_bit 8 l"
    and "take_bit 8 (drop_bit 16 (h AND 0xff00ffff)) = 0"
    and "unat l < 256 \<Longrightarrow> ((h AND 0xff00ffff) OR push_bit 16 l) AND 0xff00ffff
           = h AND 0xff00ffff"
    and "(h AND 0xff00ffff) AND 0xff00ffff = h AND 0xff00ffff"
proof -
  show "take_bit 8 (drop_bit 16 ((h AND 0xff00ffff) OR push_bit 16 l)) = take_bit 8 l"
    by (rule bit_eqI)
       (auto simp only: bit_take_bit_iff bit_drop_bit_eq comp_def bit_or_iff bit_push_bit_iff
          bit_and_ff00ffff possible_bit_word, auto dest: bit_imp_le_length)
  show "take_bit 8 (drop_bit 16 (h AND 0xff00ffff)) = 0"
    by (rule bit_eqI)
       (auto simp only: bit_take_bit_iff bit_drop_bit_eq comp_def bit_and_ff00ffff, auto)
  show "(h AND 0xff00ffff) AND 0xff00ffff = h AND 0xff00ffff"
    by (simp add: and.assoc)
  show "((h AND 0xff00ffff) OR push_bit 16 l) AND 0xff00ffff = h AND 0xff00ffff"
    if "unat l < 256"
  proof -
    have "l < 2 ^ 8" using that by (simp add: word_less_nat_alt)
    then have l: "take_bit 8 l = l" by (simp add: take_bit_eq_mask less_mask_eq)
    have b: "bit l n \<Longrightarrow> n < 8" for n
      using l by (metis bit_take_bit_iff)
    show ?thesis
      by (rule bit_eqI)
         (auto simp only: bit_and_iff bit_ff00ffff bit_or_iff bit_push_bit_iff
            possible_bit_word, auto dest: b bit_imp_le_length)
  qed
qed

lemma component_writes_are_writes:
  "w \<in> set (concat (map (component_writes c intr vb) xs)) \<Longrightarrow>
   \<exists>chan off base. w = nir_store_output chan off base"
  using v3d_nir_store_output_is_write
  by (auto simp: component_writes_def split: if_splits)

lemma exec_component_writes_var_value:
  "var_value (exec_instrs env (concat (map (component_writes c intr vb) xs)) rt) = var_value rt"
  by (rule exec_writes_var_value) (rule component_writes_are_writes)

text \<open>
  C4: for a store to the layer output in a geometry shader, the built code sets the
  header to \<open>(header AND 0xff00ffff) OR x\<close>, where \<open>x\<close> is 0 when the layer is
  greater than or equal to the number of framebuffer layers (a signed comparison) and
  \<open>layer << 16\<close> otherwise; the other two variables keep their values. So in the
  first case bits 23 to 16 are 0, in the second they are the low 8 bits of the layer,
  and the other header bits are unchanged (in the second case for a layer below 256).
\<close>

theorem C4_layer_header:
  assumes "info_stage (s c) = MESA_SHADER_GEOMETRY" and "gs_vars_created state"
    and "io_location intr = VARYING_SLOT_LAYER"
  shows "\<exists>state' out. v3d_nir_lower_vpm_output c intr state = Inr (state', out) \<and>
     var_value (exec_instrs env out rt) Var_header =
       (var_value rt Var_header AND 0xff00ffff) OR
       (if fb_layers env \<le>s nir_eval env (var_value rt) (src0 intr) 0 then 0
        else push_bit 16 (nir_eval env (var_value rt) (src0 intr) 0)) \<and>
     var_value (exec_instrs env out rt) Var_output_offset = var_value rt Var_output_offset \<and>
     var_value (exec_instrs env out rt) Var_header_offset = var_value rt Var_header_offset \<and>
     (fb_layers env \<le>s nir_eval env (var_value rt) (src0 intr) 0 \<longrightarrow>
        take_bit 8 (drop_bit 16 (var_value (exec_instrs env out rt) Var_header)) = 0 \<and>
        var_value (exec_instrs env out rt) Var_header AND 0xff00ffff
          = var_value rt Var_header AND 0xff00ffff) \<and>
     (\<not> fb_layers env \<le>s nir_eval env (var_value rt) (src0 intr) 0 \<longrightarrow>
        take_bit 8 (drop_bit 16 (var_value (exec_instrs env out rt) Var_header))
          = take_bit 8 (nir_eval env (var_value rt) (src0 intr) 0)) \<and>
     (\<not> fb_layers env \<le>s nir_eval env (var_value rt) (src0 intr) 0
        \<and> unat (nir_eval env (var_value rt) (src0 intr) 0) < 256 \<longrightarrow>
        var_value (exec_instrs env out rt) Var_header AND 0xff00ffff
          = var_value rt Var_header AND 0xff00ffff)"
proof -
  have l: "store_lowerable c intr state"
    using assms by (simp add: store_lowerable_def)
  obtain S where e: "v3d_nir_lower_vpm_output c intr state =
     Inr (state\<lparr>pos := (if io_location intr = VARYING_SLOT_POS
                         then fold (\<lambda>i p. p(nir_intrinsic_component intr + i
                                              \<mapsto> nir_channel (src0 intr) (num_components intr) i))
                                [0..<num_components intr] (pos state)
                         else pos state),
                 varyings_stored := S\<rparr>,
          psiz_write c intr state @ layer_header_store intr @
          concat (map (component_writes c intr (varyings_vpm_offset state))
                    [0..<num_components intr]))"
    using lower_vpm_output_eq [OF l] by blast
  let ?out = "psiz_write c intr state @ layer_header_store intr @
          concat (map (component_writes c intr (varyings_vpm_offset state))
                    [0..<num_components intr])"
  let ?layer = "nir_eval env (var_value rt) (src0 intr) 0"
  have p: "psiz_write c intr state = []"
    using assms(3) by (simp add: psiz_write_def VARYING_SLOT_LAYER_def VARYING_SLOT_PSIZ_def)
  have v: "var_value (exec_instrs env ?out rt) =
             (var_value rt)(Var_header :=
                (var_value rt Var_header AND 0xff00ffff) OR
                (if fb_layers env \<le>s ?layer then 0 else push_bit 16 ?layer))"
    unfolding p
    by (simp add: exec_component_writes_var_value layer_header_store_def assms(3))
  have hv: "var_value (exec_instrs env ?out rt) Var_header =
              (var_value rt Var_header AND 0xff00ffff) OR
              (if fb_layers env \<le>s ?layer then 0 else push_bit 16 ?layer)"
    and ov: "var_value (exec_instrs env ?out rt) Var_output_offset
               = var_value rt Var_output_offset"
    and fv: "var_value (exec_instrs env ?out rt) Var_header_offset
               = var_value rt Var_header_offset"
    by (simp_all only: v fun_upd_same fun_upd_other nir_variable.distinct not_False_eq_True)
  have b1: "take_bit 8 (drop_bit 16 (var_value (exec_instrs env ?out rt) Var_header)) = 0"
      "var_value (exec_instrs env ?out rt) Var_header AND 0xff00ffff
          = var_value rt Var_header AND 0xff00ffff"
    if "fb_layers env \<le>s ?layer"
    unfolding hv using that by (simp_all only: if_True or.right_neutral layer_bits)
  have b2: "take_bit 8 (drop_bit 16 (var_value (exec_instrs env ?out rt) Var_header))
          = take_bit 8 ?layer"
    if "\<not> fb_layers env \<le>s ?layer"
    unfolding hv using that by (simp only: if_False layer_bits)
  have b3: "var_value (exec_instrs env ?out rt) Var_header AND 0xff00ffff
          = var_value rt Var_header AND 0xff00ffff"
    if "\<not> fb_layers env \<le>s ?layer" "unat ?layer < 256"
    unfolding hv using that by (simp only: if_False layer_bits)
  show ?thesis
    unfolding e
    by (intro exI conjI impI, rule refl, rule hv, rule ov, rule fv,
        erule b1(1), erule b1(2), erule b2, elim conjE, erule b3, assumption)
qed

text \<open>Layer 3 and layer 1 with two framebuffer layers, on the header 0xabcd0501.\<close>

theorem C4_layer_header_witness:
  "take_bit 8 (drop_bit 16
     (var_value (exec_instrs (example_env 3 2)
        (snd (projr (v3d_nir_lower_vpm_output example_gs_compile
                       (example_store 22 (nir_imm_int 0)) example_gs_state)))
        (example_rt 0xabcd0501)) Var_header)) = 0 \<and>
   var_value (exec_instrs (example_env 3 2)
        (snd (projr (v3d_nir_lower_vpm_output example_gs_compile
                       (example_store 22 (nir_imm_int 0)) example_gs_state)))
        (example_rt 0xabcd0501)) Var_header = 0xab000501 \<and>
   take_bit 8 (drop_bit 16
     (var_value (exec_instrs (example_env 1 2)
        (snd (projr (v3d_nir_lower_vpm_output example_gs_compile
                       (example_store 22 (nir_imm_int 0)) example_gs_state)))
        (example_rt 0xabcd0501)) Var_header)) = 1 \<and>
   var_value (exec_instrs (example_env 1 2)
        (snd (projr (v3d_nir_lower_vpm_output example_gs_compile
                       (example_store 22 (nir_imm_int 0)) example_gs_state)))
        (example_rt 0xabcd0501)) Var_header = 0xab010501"
proof -
  have l: "io_location (example_store 22 (nir_imm_int 0)) = VARYING_SLOT_LAYER"
    by (simp add: example_store_def example_intrinsic_def VARYING_SLOT_LAYER_def)
  have k: "nir_eval (example_env a b) vars (src0 (example_store 22 (nir_imm_int 0))) 0 = a"
    "fb_layers (example_env a b) = b"
    "var_value (example_rt h) Var_header = h" for a b vars h
    by (simp_all add: example_env_def example_store_def example_intrinsic_def example_rt_def)
  have w: "(2 :: 32 word) \<le>s 3" "\<not> (2 :: 32 word) \<le>s 1"
    by (simp_all add: word_sle_eq)
  have b: "(0xabcd0501 AND 0xff00ffff :: 32 word) = 0xab000501"
    "(0xab000501 OR push_bit 16 1 :: 32 word) = 0xab010501"
    "take_bit 8 (1 :: 32 word) = 1"
    by simp_all
  show ?thesis
    using C4_layer_header [OF example_gs_facts(1,2) l, of "example_env 3 2" "example_rt 0xabcd0501"]
      C4_layer_header [OF example_gs_facts(1,2) l, of "example_env 1 2" "example_rt 0xabcd0501"]
    by (auto simp: k w b)
qed

subsection \<open>Compute shaders\<close>

lemma compute_lower_io_instr:
  assumes "info_stage (s c) = MESA_SHADER_COMPUTE" and "\<not> emits_or_ends instr"
  shows "v3d_nir_lower_io_instr c instr state =
           Inr (state, [Kept (lower_uniform_instr c instr)], None)"
proof (cases instr)
  case (Intrinsic intr)
  then show ?thesis
    using assms
    by (cases "intrinsic intr")
       (simp_all add: v3d_nir_lower_io_instr_def lower_uniform_instr_def emits_or_ends_def)
next
  case (Other_instr d srcs)
  then show ?thesis
    by (simp add: v3d_nir_lower_io_instr_def lower_uniform_instr_def)
qed

lemma compute_lower_instrs:
  assumes "info_stage (s c) = MESA_SHADER_COMPUTE"
    and "\<forall>instr \<in> set impl. \<not> emits_or_ends instr"
  shows "lower_instrs c impl state = Inr (state, map (\<lambda>instr. Kept (lower_uniform_instr c instr)) impl)"
  using assms(2)
proof (induction impl)
  case Nil
  then show ?case by simp
next
  case (Cons instr rest)
  then show ?case
    by (simp add: compute_lower_io_instr [OF assms(1)] nir_ssa_def_rewrite_uses_after_def)
qed

lemma compute_lower_impls:
  assumes "info_stage (s c) = MESA_SHADER_COMPUTE"
    and "\<forall>impl \<in> set is. \<forall>instr \<in> set impl. \<not> emits_or_ends instr"
  shows "lower_impls c is state =
           Inr (state, map (map (\<lambda>instr. Kept (lower_uniform_instr c instr))) is)"
  using assms(2)
proof (induction "is")
  case Nil
  then show ?case by simp
next
  case (Cons impl rest)
  then show ?case
    by (simp add: lower_impl_def bind_err_def assms(1) compute_lower_instrs [OF assms(1)])
qed

text \<open>
  C5 (amended): for a compute shader (which has no emit-vertex and no end-primitive) the
  pass succeeds, leaves the compile context as it was, adds and removes no instruction,
  and keeps every instruction that is not a load-uniform unchanged. A load-uniform gets
  the uniform rewrite of C6; under Vulkan that rewrite is the identity, so there the
  whole instruction stream is unchanged.
\<close>

theorem C5_compute:
  assumes "info_stage (s c) = MESA_SHADER_COMPUTE"
    and "\<forall>impl \<in> set (impls (s c)). \<forall>instr \<in> set impl. \<not> emits_or_ends instr"
  shows "v3d_nir_lower_io c =
           Inr (c, map (map (\<lambda>instr. Kept (lower_uniform_instr c instr))) (impls (s c))) \<and>
     (\<forall>instr. (\<forall>intr. instr = Intrinsic intr \<longrightarrow> intrinsic intr \<noteq> nir_intrinsic_load_uniform)
        \<longrightarrow> lower_uniform_instr c instr = instr) \<and>
     (environment c = V3D_ENVIRONMENT_VULKAN \<longrightarrow>
        v3d_nir_lower_io c = Inr (c, map (map Kept) (impls (s c))))"
proof -
  have 1: "v3d_nir_lower_io c =
           Inr (c, map (map (\<lambda>instr. Kept (lower_uniform_instr c instr))) (impls (s c)))"
    by (simp add: v3d_nir_lower_io_def bind_err_def assms(1)
        compute_lower_impls [OF assms(1) assms(2)])
  have 2: "lower_uniform_instr c instr = instr"
    if "\<forall>intr. instr = Intrinsic intr \<longrightarrow> intrinsic intr \<noteq> nir_intrinsic_load_uniform"
    for instr
    using that by (cases instr) (simp_all add: lower_uniform_instr_def)
  have 3: "lower_uniform_instr c instr = instr" if "environment c = V3D_ENVIRONMENT_VULKAN"
    for instr
    using that
    by (cases instr) (simp_all add: lower_uniform_instr_def v3d_nir_lower_uniform_def)
  have 4: "map (map (\<lambda>instr. Kept (lower_uniform_instr c instr))) (impls (s c))
             = map (map Kept) (impls (s c))" if "environment c = V3D_ENVIRONMENT_VULKAN"
    by (simp add: 3 [OF that])
  show ?thesis
    using 1 2 4 by simp
qed

text \<open>
  Outside Vulkan a compute shader is not passed through unchanged: its load-uniform with
  base 4 and index \<open>x\<close> comes out with base 64 and index \<open>x << 4\<close>.
\<close>

theorem C5_counterexample:
  "info_stage (s (example_compile MESA_SHADER_COMPUTE V3D_ENVIRONMENT_OPENGL
                    [example_uniform_load])) = MESA_SHADER_COMPUTE \<and>
   impls (s (example_compile MESA_SHADER_COMPUTE V3D_ENVIRONMENT_OPENGL
                    [example_uniform_load])) = [[example_uniform_load]] \<and>
   v3d_nir_lower_io (example_compile MESA_SHADER_COMPUTE V3D_ENVIRONMENT_OPENGL
                       [example_uniform_load])
     = Inr (example_compile MESA_SHADER_COMPUTE V3D_ENVIRONMENT_OPENGL [example_uniform_load],
            [[Kept (Intrinsic ((example_intrinsic nir_intrinsic_load_uniform 0 0)
                        \<lparr>nir_intrinsic_base := 64, src0 := nir_ishl_imm (Ssa 7) 4\<rparr>))]]) \<and>
   [[Kept (Intrinsic ((example_intrinsic nir_intrinsic_load_uniform 0 0)
                        \<lparr>nir_intrinsic_base := 64, src0 := nir_ishl_imm (Ssa 7) 4\<rparr>))]]
     \<noteq> [[Kept example_uniform_load]]"
  by (simp add: v3d_nir_lower_io_def bind_err_def lower_impl_def v3d_nir_lower_io_instr_def
      v3d_nir_lower_uniform_def nir_ssa_def_rewrite_uses_after_def example_compile_def
      example_shader_def example_uniform_load_def example_intrinsic_def)

theorem C5_compute_witness:
  "v3d_nir_lower_io (example_compile MESA_SHADER_COMPUTE V3D_ENVIRONMENT_VULKAN
                       [example_uniform_load, Other_instr 3 [Ssa 5, Ssa 6]])
     = Inr (example_compile MESA_SHADER_COMPUTE V3D_ENVIRONMENT_VULKAN
              [example_uniform_load, Other_instr 3 [Ssa 5, Ssa 6]],
            [[Kept example_uniform_load, Kept (Other_instr 3 [Ssa 5, Ssa 6])]]) \<and>
   v3d_nir_lower_io (example_compile MESA_SHADER_COMPUTE V3D_ENVIRONMENT_OPENGL
                       [example_uniform_load, Other_instr 3 [Ssa 5, Ssa 6]])
     = Inr (example_compile MESA_SHADER_COMPUTE V3D_ENVIRONMENT_OPENGL
              [example_uniform_load, Other_instr 3 [Ssa 5, Ssa 6]],
            [[Kept (Intrinsic ((example_intrinsic nir_intrinsic_load_uniform 0 0)
                        \<lparr>nir_intrinsic_base := 64, src0 := nir_ishl_imm (Ssa 7) 4\<rparr>)),
              Kept (Other_instr 3 [Ssa 5, Ssa 6])]])"
proof -
  have a: "info_stage (s (example_compile MESA_SHADER_COMPUTE env body)) = MESA_SHADER_COMPUTE"
    "impls (s (example_compile MESA_SHADER_COMPUTE env body)) = [body]"
    "environment (example_compile MESA_SHADER_COMPUTE env body) = env" for env body
    by (simp_all add: example_compile_def example_shader_def)
  have b: "\<forall>impl \<in> set (impls (s (example_compile MESA_SHADER_COMPUTE env
                       [example_uniform_load, Other_instr 3 [Ssa 5, Ssa 6]]))).
             \<forall>instr \<in> set impl. \<not> emits_or_ends instr" for env
    by (simp add: a emits_or_ends_def example_uniform_load_def example_intrinsic_def)
  have u: "lower_uniform_instr (example_compile MESA_SHADER_COMPUTE V3D_ENVIRONMENT_OPENGL body)
             example_uniform_load
           = Intrinsic ((example_intrinsic nir_intrinsic_load_uniform 0 0)
                        \<lparr>nir_intrinsic_base := 64, src0 := nir_ishl_imm (Ssa 7) 4\<rparr>)"
    "lower_uniform_instr cc (Other_instr 3 [Ssa 5, Ssa 6]) = Other_instr 3 [Ssa 5, Ssa 6]"
    "lower_uniform_instr (example_compile MESA_SHADER_COMPUTE V3D_ENVIRONMENT_VULKAN body)
             example_uniform_load = example_uniform_load"
    for body cc
    by (simp_all add: lower_uniform_instr_def example_uniform_load_def example_intrinsic_def
        v3d_nir_lower_uniform_def a)
  show ?thesis
    using C5_compute [OF a(1) b, of V3D_ENVIRONMENT_VULKAN]
      C5_compute [OF a(1) b, of V3D_ENVIRONMENT_OPENGL]
    by (simp add: a u)
qed

end
